theory Spec2Isabelle
  imports
    Complex_Main
    "HOL-Library.AList"
    "HOL-Library.Char_ord"
    "HOL-Library.List_Lexorder"
    "HOL-Library.Product_Lexorder"
begin

section \<open>NewsHub: the Redis service layer of \<^verbatim>\<open>REDIS.md\<close>\<close>

text \<open>
  The backend of NewsHub is given in \<^verbatim>\<open>src/REDIS.md\<close> as the classes
  \<^verbatim>\<open>RedisService\<close>, \<^verbatim>\<open>CacheClearService\<close> and \<^verbatim>\<open>NewsProcessor\<close>; the preference
  dialog is the React component \<^verbatim>\<open>PreferenceSetup\<close>. Every method talks to a Redis
  server through a client object. The server is modelled as an explicit state
  (record \<open>redis\<close>) that each method takes and returns; the wall clock
  (\<^verbatim>\<open>Date.now()\<close>, milliseconds) is an explicit argument \<open>now\<close>. JavaScript numbers
  that hold timestamps and counters are \<open>int\<close>; scores, which the code multiplies
  with \<^verbatim>\<open>Math.exp\<close>, are \<open>real\<close> (IEEE rounding is not modelled). A failing Redis
  command (connection loss) is not modelled: every command of the model succeeds.
\<close>

subsection \<open>Documents\<close>

text \<open>
  The JSON document that \<^verbatim>\<open>storeArticle\<close> writes under \<^verbatim>\<open>news:articles:<id>\<close>.
  \<open>embedding\<close> is \<open>None\<close> where the JavaScript value is \<^verbatim>\<open>undefined\<close> or
  \<^verbatim>\<open>null\<close> (the only falsy values an embedding array can take); the
  \<^verbatim>\<open>metadata\<close> sub-object is not read by any method and is left out.
\<close>

record article =
  art_id :: string
  title :: string
  content :: string
  summary :: string
  sentiment :: string
  topic :: string
  source :: string
  url :: string
  publishedAt :: int
  embedding :: "real list option"
  art_keywords :: "string list"

text \<open>\<^verbatim>\<open>processedArticle\<close> of \<^verbatim>\<open>processNewsArticle\<close>: the article spread, plus the
  fields the analysis adds.\<close>

record processed_article = article +
  topics :: "string list"
  processedAt :: int

text \<open>What \<^verbatim>\<open>gemini.analyzeContent\<close> resolves to.\<close>

record analysis =
  an_summary :: string
  an_sentiment :: string
  an_keywords :: "string list"
  an_topics :: "string list"

text \<open>A thrown \<^verbatim>\<open>Error(message)\<close>.\<close>

datatype error = Error string

text \<open>The two calls of the external AI provider; each may reject.\<close>

record gemini =
  analyzeContent :: "string \<Rightarrow> error + analysis"
  generateEmbedding :: "string \<Rightarrow> error + real list"

subsection \<open>User preferences, cache entries, JSON payloads\<close>

text \<open>
  The hash \<^verbatim>\<open>user:preferences:<userId>\<close> after \<^verbatim>\<open>getUserPreferences\<close> has parsed
  it. An absent \<^verbatim>\<open>sources\<close> list reads back as \<open>[]\<close> (\<^verbatim>\<open>|| '[]'\<close>); an absent
  sentiment or language is the empty string, which is falsy like \<^verbatim>\<open>undefined\<close>.
\<close>

record user_preferences =
  pref_topics :: "string list"
  pref_sources :: "string list"
  pref_sentiment :: string
  pref_language :: string
  updatedAt :: int

text \<open>A cached payload is any JSON value.\<close>

datatype json =
    JNull
  | JBool bool
  | JNumber real
  | JString string
  | JArray "json list"
  | JObject "(string \<times> json) list"

text \<open>JavaScript truthiness of a JSON value: \<^verbatim>\<open>null\<close>, \<^verbatim>\<open>false\<close>, \<^verbatim>\<open>0\<close> and
  \<^verbatim>\<open>''\<close> are falsy, everything else (also \<^verbatim>\<open>[]\<close> and \<^verbatim>\<open>{}\<close>) is truthy.\<close>

fun truthy :: "json \<Rightarrow> bool" where
  "truthy JNull = False"
| "truthy (JBool b) = b"
| "truthy (JNumber n) = (n \<noteq> 0)"
| "truthy (JString s) = (s \<noteq> [])"
| "truthy (JArray xs) = True"
| "truthy (JObject kvs) = True"

text \<open>The object \<^verbatim>\<open>{data, timestamp, ttl}\<close> that \<^verbatim>\<open>setCacheWithTTL\<close> stores.\<close>

record cache_entry =
  c_data :: json
  c_timestamp :: int
  c_ttl :: int

subsection \<open>The Redis server\<close>

text \<open>
  One component per key family the code uses. A key with a time to live is stored with
  the instant (ms) at which it expires. JSON documents and the sorted set are
  association lists, because the code enumerates them; the other families are looked
  up by key only and are maps.
\<close>

record redis =
  json_docs :: "(string \<times> article) list"
  preferences :: "string \<rightharpoonup> (user_preferences \<times> int)"
  viewed :: "string \<Rightarrow> string set"
  personalized :: "string \<Rightarrow> string set"
  engagement :: "string \<rightharpoonup> ((string \<times> int) list \<times> int)"
  trending :: "(string \<times> real) list"
  cache :: "string \<rightharpoonup> (cache_entry \<times> int)"

text \<open>Redis treats a key as expired once the clock is past its expiry instant.\<close>

definition live :: "int \<Rightarrow> 'v \<times> int \<Rightarrow> bool" where
  "live now e = (now \<le> snd e)"

definition lookup :: "int \<Rightarrow> ('k \<rightharpoonup> ('v \<times> int)) \<Rightarrow> 'k \<Rightarrow> 'v option" where
  "lookup now m k =
     (case m k of
        None \<Rightarrow> None
      | Some e \<Rightarrow> if live now e then Some (fst e) else None)"

text \<open>\<^verbatim>\<open>EXPIRE key seconds\<close> on a key just written with value \<open>v\<close>: a time to live
  that is not positive deletes the key at once.\<close>

definition expire :: "int \<Rightarrow> ('k \<rightharpoonup> ('v \<times> int)) \<Rightarrow> 'k \<Rightarrow> 'v \<Rightarrow> int \<Rightarrow> ('k \<rightharpoonup> ('v \<times> int))" where
  "expire now m k v seconds =
     (if seconds \<le> 0 then m(k := None) else m(k \<mapsto> (v, now + seconds * 1000)))"

text \<open>\<^verbatim>\<open>JSON.GET\<close> and \<^verbatim>\<open>JSON.SET\<close> on \<^verbatim>\<open>news:articles:<id>\<close>.\<close>

definition json_get :: "redis \<Rightarrow> string \<Rightarrow> article option" where
  "json_get s k = map_of (json_docs s) k"

definition json_set :: "redis \<Rightarrow> string \<Rightarrow> article \<Rightarrow> redis" where
  "json_set s k a = s\<lparr>json_docs := AList.update k a (json_docs s)\<rparr>"

subsection \<open>Engagement\<close>

text \<open>\<^verbatim>\<open>HGETALL metrics:engagement:<id>\<close>: the empty object when the key is absent
  or expired.\<close>

definition hgetall_engagement :: "redis \<Rightarrow> string \<Rightarrow> int \<Rightarrow> (string \<times> int) list" where
  "hgetall_engagement s articleId now =
     (case lookup now (engagement s) articleId of None \<Rightarrow> [] | Some h \<Rightarrow> h)"

text \<open>\<^verbatim>\<open>metrics[field] || 0\<close> followed by \<^verbatim>\<open>parseInt\<close>.\<close>

definition hfield :: "(string \<times> int) list \<Rightarrow> string \<Rightarrow> int" where
  "hfield h f = (case map_of h f of None \<Rightarrow> 0 | Some n \<Rightarrow> n)"

definition trackEngagement :: "redis \<Rightarrow> string \<Rightarrow> string \<Rightarrow> int \<Rightarrow> redis" where
  "trackEngagement s articleId action now =
     (let actionKey = action @ '':count'';
          h0 = hgetall_engagement s articleId now;
          h1 = AList.update actionKey (hfield h0 actionKey + 1) h0;
          h2 = AList.update ''last_updated'' now h1
      in s\<lparr>engagement := expire now (engagement s) articleId h2 (7 * 24 * 60 * 60)\<rparr>)"

definition getEngagementScore :: "redis \<Rightarrow> string \<Rightarrow> int \<Rightarrow> real" where
  "getEngagementScore s articleId now =
     (let metrics = hgetall_engagement s articleId now
      in if metrics = [] then 1
         else let viewCount = hfield metrics ''view:count'';
                  likeCount = hfield metrics ''like:count'';
                  shareCount = hfield metrics ''share:count'';
                  score = viewCount + (likeCount * 2) + (shareCount * 3)
              in max (real_of_int score) 1)"

subsection \<open>Full-text search\<close>

text \<open>
  \<^verbatim>\<open>FT.SEARCH news:search_index query SORTBY publishedAt LIMIT from size\<close>. The index
  covers every document under \<^verbatim>\<open>news:articles:\<close>. The query \<^verbatim>\<open>*\<close> selects every
  document; what any other query string selects is decided by RediSearch's query
  language, which is the parameter \<open>matches\<close>. \<^verbatim>\<open>SORTBY\<close> without a direction is
  ascending; \<^verbatim>\<open>LIMIT\<close> cuts the window out of the sorted matches.
\<close>

type_synonym matcher = "string \<Rightarrow> article \<Rightarrow> bool"

definition sorted_matches :: "matcher \<Rightarrow> redis \<Rightarrow> string \<Rightarrow> (string \<times> article) list" where
  "sorted_matches matches s query =
     sort_key (\<lambda>doc. publishedAt (snd doc))
       (filter (\<lambda>doc. query = ''*'' \<or> matches query (snd doc)) (json_docs s))"

definition ft_search :: "matcher \<Rightarrow> redis \<Rightarrow> string \<Rightarrow> nat \<Rightarrow> nat \<Rightarrow> (string \<times> article) list" where
  "ft_search matches s query lim_from lim_size =
     take lim_size (drop lim_from (sorted_matches matches s query))"

text \<open>The object each method builds from a returned document; the id is the key with
  the prefix \<^verbatim>\<open>news:articles:\<close> removed.\<close>

record search_result =
  res_id :: string
  res_title :: string
  res_content :: string
  res_sentiment :: string
  res_topic :: string
  res_source :: string

definition to_result :: "string \<times> article \<Rightarrow> search_result" where
  "to_result doc =
     \<lparr>res_id = fst doc, res_title = title (snd doc), res_content = content (snd doc),
      res_sentiment = sentiment (snd doc), res_topic = topic (snd doc),
      res_source = source (snd doc)\<rparr>"

text \<open>The \<^verbatim>\<open>filters\<close> argument of \<^verbatim>\<open>searchArticles\<close>. An absent filter is the empty
  string (falsy, like \<^verbatim>\<open>undefined\<close>); the bounds of a date range are taken as the
  text that the template literal interpolates. The object is the caller's: the search
  parameters a client sends (\<^verbatim>\<open>SearchParams\<close> in \<^verbatim>\<open>api.ts\<close>) also hold
  \<^verbatim>\<open>page\<close> and \<^verbatim>\<open>limit\<close>, so the record has them, absent or present.\<close>

record search_filters =
  f_sentiment :: string
  f_topic :: string
  f_source :: string
  f_dateRange :: "(string \<times> string) option"
  f_page :: "nat option"
  f_limit :: "nat option"

definition search_query :: "string \<Rightarrow> search_filters \<Rightarrow> string" where
  "search_query query filters =
     ''(@title:'' @ query @ '' | @content:'' @ query @ '' | @summary:'' @ query @ '')''
     @ (if f_sentiment filters \<noteq> [] then '' @sentiment:{'' @ f_sentiment filters @ ''}'' else [])
     @ (if f_topic filters \<noteq> [] then '' @topic:{'' @ f_topic filters @ ''}'' else [])
     @ (if f_source filters \<noteq> [] then '' @source:{'' @ f_source filters @ ''}'' else [])
     @ (case f_dateRange filters of
          None \<Rightarrow> []
        | Some (start, finish) \<Rightarrow> '' @publishedAt:['' @ start @ '' '' @ finish @ '']'')"

definition searchArticles :: "matcher \<Rightarrow> redis \<Rightarrow> string \<Rightarrow> search_filters \<Rightarrow> search_result list" where
  "searchArticles matches s query filters =
     map to_result (ft_search matches s (search_query query filters) 0 50)"

subsection \<open>Trending\<close>

text \<open>
  The sorted set \<^verbatim>\<open>trending:articles\<close> is an association list from member to score.
  \<^verbatim>\<open>ZREVRANGE key start stop WITHSCORES\<close> ranks by score, then by member, highest
  first; both indices are inclusive and a negative index counts from the end.
\<close>

definition zrevrange :: "(string \<times> real) list \<Rightarrow> int \<Rightarrow> int \<Rightarrow> (string \<times> real) list" where
  "zrevrange z start stop =
     (let ranked = rev (sort_key (\<lambda>e. (snd e, fst e)) z);
          n = int (length ranked);
          i = (if start < 0 then max (n + start) 0 else start);
          j = (if stop < 0 then n + stop else stop)
      in if i > j \<or> i \<ge> n then []
         else take (nat (min j (n - 1) - i + 1)) (drop (nat i) ranked))"

definition timeDecay :: "int \<Rightarrow> int \<Rightarrow> real" where
  "timeDecay now published = exp (- real_of_int (now - published) / (24 * 60 * 60 * 1000))"

text \<open>The object \<^verbatim>\<open>trendingScores\<close> that the loop of \<^verbatim>\<open>updateTrendingArticles\<close>
  fills from the scan, one assignment per scanned document. The loop reads
  \<^verbatim>\<open>Date.now()\<close> anew for each document; the model takes one instant for the whole
  refresh.\<close>

definition trendingScores :: "matcher \<Rightarrow> redis \<Rightarrow> int \<Rightarrow> (string \<times> real) list" where
  "trendingScores matches s now =
     fold (\<lambda>doc acc.
             AList.update (fst doc)
               (timeDecay now (publishedAt (snd doc)) * getEngagementScore s (fst doc) now) acc)
          (ft_search matches s ''*'' 0 1000) []"

text \<open>
  \<^verbatim>\<open>Object.entries\<close> lists the properties of an object in this order: first the keys
  that are array indices (the decimal numeral, without sign or leading zero, of an
  integer from 0 to 4294967294) by ascending value, then every other key in the order of
  its creation. The argument is the object as an association list in creation order.
\<close>

definition is_digit :: "char \<Rightarrow> bool" where
  "is_digit c = (48 \<le> (of_char c :: nat) \<and> (of_char c :: nat) \<le> 57)"

definition digits_value :: "string \<Rightarrow> nat" where
  "digits_value key = foldl (\<lambda>n c. 10 * n + ((of_char c :: nat) - 48)) 0 key"

definition is_array_index :: "string \<Rightarrow> bool" where
  "is_array_index key =
     (key \<noteq> [] \<and> list_all is_digit key \<and> (key = ''0'' \<or> hd key \<noteq> CHR ''0'') \<and>
      digits_value key \<le> 4294967294)"

definition object_entries :: "(string \<times> 'v) list \<Rightarrow> (string \<times> 'v) list" where
  "object_entries obj =
     sort_key (\<lambda>e. digits_value (fst e)) (filter (\<lambda>e. is_array_index (fst e)) obj)
     @ filter (\<lambda>e. \<not> is_array_index (fst e)) obj"

text \<open>The writes of \<^verbatim>\<open>updateTrendingArticles\<close>: one \<^verbatim>\<open>DEL\<close>, then one \<^verbatim>\<open>ZADD\<close> per
  entry of \<^verbatim>\<open>Object.entries(trendingScores)\<close>, each awaited on its own.\<close>

datatype zcommand = DEL | ZADD real string

fun exec :: "zcommand \<Rightarrow> (string \<times> real) list \<Rightarrow> (string \<times> real) list" where
  "exec DEL z = []"
| "exec (ZADD score member) z = AList.update member score z"

definition rebuild_commands :: "(string \<times> real) list \<Rightarrow> zcommand list" where
  "rebuild_commands scores = DEL # map (\<lambda>e. ZADD (snd e) (fst e)) (object_entries scores)"

definition updateTrendingArticles :: "matcher \<Rightarrow> redis \<Rightarrow> int \<Rightarrow> redis" where
  "updateTrendingArticles matches s now =
     s\<lparr>trending := fold exec (rebuild_commands (trendingScores matches s now)) (trending s)\<rparr>"

text \<open>The server states between two awaited writes of one rebuild: the state after the
  first \<open>n\<close> commands, for every \<open>n\<close>. A request served while the rebuild is suspended
  at an \<^verbatim>\<open>await\<close> reads one of them.\<close>

definition rebuild_snapshots :: "matcher \<Rightarrow> redis \<Rightarrow> int \<Rightarrow> redis list" where
  "rebuild_snapshots matches s now =
     (let cmds = rebuild_commands (trendingScores matches s now)
      in map (\<lambda>n. s\<lparr>trending := fold exec (take n cmds) (trending s)\<rparr>) [0..<Suc (length cmds)])"

text \<open>\<^verbatim>\<open>getTrendingArticles\<close>: the ranked ids whose document still exists, each with
  its \<^verbatim>\<open>trendingScore\<close>.\<close>

definition getTrendingArticles :: "redis \<Rightarrow> nat \<Rightarrow> (article \<times> real) list" where
  "getTrendingArticles s limit =
     List.map_filter
       (\<lambda>e. map_option (\<lambda>a. (a, snd e)) (json_get s (fst e)))
       (zrevrange (trending s) 0 (int limit - 1))"

subsection \<open>Preferences and the personalized feed\<close>

text \<open>\<^verbatim>\<open>storeUserPreferences\<close> writes the five fields, stamps \<^verbatim>\<open>updatedAt\<close> and sets a
  time to live of 30 days; it returns \<^verbatim>\<open>true\<close>. It inspects none of the fields.\<close>

definition storeUserPreferences ::
  "redis \<Rightarrow> string \<Rightarrow> user_preferences \<Rightarrow> int \<Rightarrow> bool \<times> redis" where
  "storeUserPreferences s userId prefs now =
     (True,
      s\<lparr>preferences :=
          expire now (preferences s) userId (prefs\<lparr>updatedAt := now\<rparr>) (30 * 24 * 60 * 60)\<rparr>)"

text \<open>\<^verbatim>\<open>getUserPreferences\<close>: \<^verbatim>\<open>null\<close> when \<^verbatim>\<open>HGETALL\<close> returns no field, that is
  when the key is absent or has expired.\<close>

definition getUserPreferences :: "redis \<Rightarrow> string \<Rightarrow> int \<Rightarrow> user_preferences option" where
  "getUserPreferences s userId now = lookup now (preferences s) userId"

text \<open>\<^verbatim>\<open>Array.prototype.join\<close>.\<close>

fun join :: "string \<Rightarrow> string list \<Rightarrow> string" where
  "join sep [] = []"
| "join sep [x] = x"
| "join sep (x # y # ys) = x @ sep @ join sep (y # ys)"

definition personalized_query :: "user_preferences \<Rightarrow> string" where
  "personalized_query prefs =
     (let filters =
            (if length (pref_topics prefs) > 0
             then [''@topic:{'' @ join ''|'' (pref_topics prefs) @ ''}''] else [])
          @ (if length (pref_sources prefs) > 0
             then [''@source:{'' @ join ''|'' (pref_sources prefs) @ ''}''] else [])
          @ (if pref_sentiment prefs \<noteq> []
             then [''@sentiment:{'' @ pref_sentiment prefs @ ''}''] else [])
      in if length filters > 0 then join '' '' filters else ''*'')"

text \<open>\<^verbatim>\<open>getPersonalizedNews\<close> returns trending articles (documents with their score)
  when there are no preferences, search results otherwise.\<close>

datatype feed = Trending "(article \<times> real) list" | Hits "search_result list"

definition getPersonalizedNews :: "matcher \<Rightarrow> redis \<Rightarrow> string \<Rightarrow> nat \<Rightarrow> int \<Rightarrow> error + feed" where
  "getPersonalizedNews matches s userId limit now =
     (case getUserPreferences s userId now of
        None \<Rightarrow> Inr (Trending (getTrendingArticles s limit))
      | Some prefs \<Rightarrow>
          Inr (Hits (map to_result (ft_search matches s (personalized_query prefs) 0 limit))))"

text \<open>\<^verbatim>\<open>trackArticleView\<close>: \<^verbatim>\<open>SADD user:viewed:<userId>\<close>, \<^verbatim>\<open>SREM
  user:personalized:<userId>\<close>, then the engagement counter.\<close>

definition trackArticleView :: "redis \<Rightarrow> string \<Rightarrow> string \<Rightarrow> int \<Rightarrow> redis" where
  "trackArticleView s userId articleId now =
     trackEngagement
       (s\<lparr>viewed := (viewed s)(userId := insert articleId (viewed s userId)),
          personalized := (personalized s)(userId := personalized s userId - {articleId})\<rparr>)
       articleId ''view'' now"

subsection \<open>Similar articles\<close>

text \<open>
  \<^verbatim>\<open>FT.SEARCH news:vector_index "*=>[KNN $k @embedding $embedding AS score]" SORTBY
  score\<close>: among the documents that have an embedding, the \<open>k\<close> nearest to the query
  vector under the index's metric (\<^verbatim>\<open>COSINE\<close>, the parameter \<open>distance\<close>), sorted by
  that distance; with no \<^verbatim>\<open>LIMIT\<close> given, RediSearch returns the first 10.
\<close>

type_synonym metric = "real list \<Rightarrow> real list \<Rightarrow> real"

text \<open>The candidates of a KNN query for the vector \<open>v\<close>: every document that has an
  embedding, with its distance from \<open>v\<close>.\<close>

definition knn_candidates ::
  "metric \<Rightarrow> redis \<Rightarrow> real list \<Rightarrow> (string \<times> article \<times> real) list" where
  "knn_candidates distance s v =
     List.map_filter
       (\<lambda>doc. map_option (\<lambda>w. (fst doc, snd doc, distance v w)) (embedding (snd doc)))
       (json_docs s)"

definition ft_search_knn ::
  "metric \<Rightarrow> redis \<Rightarrow> nat \<Rightarrow> real list \<Rightarrow> (string \<times> article \<times> real) list" where
  "ft_search_knn distance s k v =
     take 10
       (sort_key (\<lambda>d. snd (snd d))
          (take k (sort_key (\<lambda>d. snd (snd d)) (knn_candidates distance s v))))"

record similar_result =
  sim_id :: string
  sim_title :: string
  sim_content :: string
  sim_sentiment :: string
  sim_topic :: string
  similarity :: real

definition to_similar :: "string \<times> article \<times> real \<Rightarrow> similar_result" where
  "to_similar d =
     \<lparr>sim_id = fst d, sim_title = title (fst (snd d)), sim_content = content (fst (snd d)),
      sim_sentiment = sentiment (fst (snd d)), sim_topic = topic (fst (snd d)),
      similarity = snd (snd d)\<rparr>"

definition findSimilarArticles ::
  "metric \<Rightarrow> redis \<Rightarrow> string \<Rightarrow> nat \<Rightarrow> error + similar_result list" where
  "findSimilarArticles distance s articleId limit =
     (case json_get s articleId of
        None \<Rightarrow> Inl (Error ''Article or embedding not found'')
      | Some a \<Rightarrow>
          (case embedding a of
             None \<Rightarrow> Inl (Error ''Article or embedding not found'')
           | Some v \<Rightarrow> Inr (map to_similar (ft_search_knn distance s limit v))))"

text \<open>The cosine distance of two vectors.\<close>

definition cosine :: metric where
  "cosine v w =
     1 - (\<Sum>p\<leftarrow>zip v w. fst p * snd p)
         / (sqrt (\<Sum>x\<leftarrow>v. x * x) * sqrt (\<Sum>x\<leftarrow>w. x * x))"

subsection \<open>Result cache\<close>

text \<open>\<^verbatim>\<open>setCacheWithTTL\<close> and \<^verbatim>\<open>getCache\<close> work on \<^verbatim>\<open>cache:results:<key>\<close>; \<open>ttl\<close> is in
  seconds. \<^verbatim>\<open>getCache\<close> returns \<^verbatim>\<open>null\<close> (\<open>None\<close>) unless the entry is there and its
  \<^verbatim>\<open>data\<close> is truthy.\<close>

definition setCacheWithTTL :: "redis \<Rightarrow> string \<Rightarrow> json \<Rightarrow> int \<Rightarrow> int \<Rightarrow> redis" where
  "setCacheWithTTL s key payload seconds now =
     s\<lparr>cache :=
         expire now (cache s) key
           \<lparr>c_data = payload, c_timestamp = now, c_ttl = seconds\<rparr> seconds\<rparr>"

definition getCache :: "redis \<Rightarrow> string \<Rightarrow> int \<Rightarrow> json option" where
  "getCache s key now =
     (case lookup now (cache s) key of
        None \<Rightarrow> None
      | Some cached \<Rightarrow> if truthy (c_data cached) then Some (c_data cached) else None)"

subsection \<open>Ingestion\<close>

text \<open>\<^verbatim>\<open>storeArticle\<close> writes the listed fields under the article's id
  (\<^verbatim>\<open>createSearchIndex\<close> changes no data) and returns the id.\<close>

definition storeArticle :: "redis \<Rightarrow> processed_article \<Rightarrow> string \<times> redis" where
  "storeArticle s a =
     (art_id a,
      json_set s (art_id a)
        \<lparr>art_id = art_id a, title = title a, content = content a, summary = summary a,
         sentiment = sentiment a, topic = topic a, source = source a, url = url a,
         publishedAt = publishedAt a, embedding = embedding a,
         art_keywords = art_keywords a\<rparr>)"

text \<open>\<^verbatim>\<open>processNewsArticle\<close>: a rejected provider call leaves the method at once, with
  the server untouched; otherwise the article is stored and the ranking rebuilt.\<close>

definition processNewsArticle ::
  "gemini \<Rightarrow> matcher \<Rightarrow> redis \<Rightarrow> article \<Rightarrow> int \<Rightarrow> (error + processed_article) \<times> redis" where
  "processNewsArticle ai matches s a now =
     (case analyzeContent ai (content a) of
        Inl e \<Rightarrow> (Inl e, s)
      | Inr an \<Rightarrow>
          (case generateEmbedding ai (content a) of
             Inl e \<Rightarrow> (Inl e, s)
           | Inr emb \<Rightarrow>
               (let processedArticle =
                      \<lparr>art_id = art_id a, title = title a, content = content a,
                       summary = an_summary an, sentiment = an_sentiment an,
                       topic = topic a, source = source a, url = url a,
                       publishedAt = publishedAt a, embedding = Some emb,
                       art_keywords = an_keywords an, topics = an_topics an,
                       processedAt = now\<rparr>;
                    s1 = snd (storeArticle s processedArticle);
                    s2 = updateTrendingArticles matches s1 now
                in (Inr processedArticle, s2))))"

text \<open>
  \<^verbatim>\<open>processBatch\<close> starts \<^verbatim>\<open>processNewsArticle\<close> for every article and waits with
  \<^verbatim>\<open>Promise.allSettled\<close>, which never rejects. The model runs the articles one after
  the other; \<open>Inl\<close> is a rejected promise, \<open>Inr\<close> a fulfilled one.
\<close>

fun settle_all ::
  "gemini \<Rightarrow> matcher \<Rightarrow> redis \<Rightarrow> article list \<Rightarrow> int \<Rightarrow> (error + processed_article) list \<times> redis" where
  "settle_all ai matches s [] now = ([], s)"
| "settle_all ai matches s (a # rest) now =
     (let r = processNewsArticle ai matches s a now;
          rs = settle_all ai matches (snd r) rest now
      in (fst r # fst rs, snd rs))"

record batch_report =
  total :: nat
  successful :: nat
  failed :: nat

definition processBatch ::
  "gemini \<Rightarrow> matcher \<Rightarrow> redis \<Rightarrow> article list \<Rightarrow> int \<Rightarrow> (error + batch_report) \<times> redis" where
  "processBatch ai matches s articles now =
     (let settled = settle_all ai matches s articles now;
          results = fst settled
      in (Inr \<lparr>total = length articles,
               successful = length (filter (\<lambda>r. \<not> isl r) results),
               failed = length (filter isl results)\<rparr>,
          snd settled))"

subsection \<open>The preference dialog\<close>

text \<open>\<^verbatim>\<open>String.prototype.toLowerCase\<close> on the ASCII letters.\<close>

definition lower_char :: "char \<Rightarrow> char" where
  "lower_char c =
     (let n = (of_char c :: nat) in if 65 \<le> n \<and> n \<le> 90 then char_of (n + 32) else c)"

definition toLowerCase :: "string \<Rightarrow> string" where
  "toLowerCase str = map lower_char str"

text \<open>\<^verbatim>\<open>toggleTopic\<close> maps the selection \<^verbatim>\<open>prev\<close> to the next one; the second component
  is the title of the toast it raises, if any.\<close>

definition toggleTopic :: "string \<Rightarrow> string list \<Rightarrow> string list \<times> string option" where
  "toggleTopic tp prev =
     (let lowercaseTopic = toLowerCase tp
      in if lowercaseTopic \<in> set prev
         then (filter (\<lambda>t. t \<noteq> lowercaseTopic) prev, None)
         else if length prev \<ge> 10
              then (prev, Some ''Maximum reached'')
              else (prev @ [lowercaseTopic], None))"

subsection \<open>Auxiliary notions\<close>

text \<open>An article is rejected when one of its two provider calls rejects.\<close>

definition rejects :: "gemini \<Rightarrow> article \<Rightarrow> bool" where
  "rejects ai a =
     (isl (analyzeContent ai (content a)) \<or> isl (generateEmbedding ai (content a)))"

text \<open>The document that is in the store for raw article \<open>a\<close> once it has been processed
  with analysis \<open>an\<close> and embedding \<open>emb\<close>.\<close>

definition stored_doc :: "article \<Rightarrow> analysis \<Rightarrow> real list \<Rightarrow> article" where
  "stored_doc a an emb =
     \<lparr>art_id = art_id a, title = title a, content = content a, summary = an_summary an,
      sentiment = an_sentiment an, topic = topic a, source = source a, url = url a,
      publishedAt = publishedAt a, embedding = Some emb, art_keywords = an_keywords an\<rparr>"

section \<open>Sample servers\<close>

text \<open>An empty server, and a server with one article, one reader who chose the topic
  of that article, and a ranking that holds the article.\<close>

definition redis0 :: redis where
  "redis0 =
     \<lparr>json_docs = [], preferences = Map.empty, viewed = (\<lambda>u. {}), personalized = (\<lambda>u. {}),
      engagement = Map.empty, trending = [], cache = Map.empty\<rparr>"

definition art1 :: article where
  "art1 =
     \<lparr>art_id = ''a1'', title = ''Redis 8 released'', content = ''Redis 8 adds vector sets'',
      summary = ''Release notes'', sentiment = ''positive'', topic = ''technology'',
      source = ''wire'', url = ''https://example.org/a1'', publishedAt = 1000,
      embedding = Some [1, 0], art_keywords = [''redis'']\<rparr>"

definition prefs_tech :: user_preferences where
  "prefs_tech =
     \<lparr>pref_topics = [''technology''], pref_sources = [], pref_sentiment = [],
      pref_language = [], updatedAt = 0\<rparr>"

definition reader_server :: redis where
  "reader_server =
     redis0\<lparr>json_docs := [(''a1'', art1)],
            preferences := [''u1'' \<mapsto> (prefs_tech, 2592000000)],
            trending := [(''a1'', 1)]\<rparr>"

text \<open>A matcher that understands the one-topic tag query \<^verbatim>\<open>@topic:{t}\<close>.\<close>

definition topic_matcher :: matcher where
  "topic_matcher query a = (query = ''@topic:{'' @ topic a @ ''}'')"

text \<open>An article whose engagement hash holds 5 views, 2 likes and 1 share, and one
  whose only recorded event is a \<^verbatim>\<open>bookmark\<close>.\<close>

definition engaged_server :: redis where
  "engaged_server =
     redis0\<lparr>engagement :=
       [''a1'' \<mapsto> ([(''view:count'', 5), (''like:count'', 2), (''share:count'', 1),
                    (''last_updated'', 0)], 604800000)]\<rparr>"

definition bookmarked_server :: redis where
  "bookmarked_server = trackEngagement redis0 ''a1'' ''bookmark'' 0"

text \<open>A second article, and a server that holds both.\<close>

definition art2 :: article where
  "art2 =
     \<lparr>art_id = ''a2'', title = ''Cup final tonight'', content = ''Kick-off is at eight'',
      summary = ''Preview'', sentiment = ''neutral'', topic = ''sports'',
      source = ''wire'', url = ''https://example.org/a2'', publishedAt = 2000,
      embedding = Some [0, 1], art_keywords = [''football'']\<rparr>"

definition pair_server :: redis where
  "pair_server = redis0\<lparr>json_docs := [(''a1'', art1), (''a2'', art2)]\<rparr>"

text \<open>Ten topics, and preferences that hold eleven.\<close>

definition ten_topics :: "string list" where
  "ten_topics = [''world'', ''politics'', ''business'', ''technology'', ''science'',
                 ''health'', ''sports'', ''travel'', ''food'', ''arts'']"

definition prefs_eleven :: user_preferences where
  "prefs_eleven = prefs_tech\<lparr>pref_topics := ten_topics @ [''weather'']\<rparr>"

text \<open>A provider that rejects the text \<^verbatim>\<open>unreadable\<close> and analyses every other text,
  and a batch of three articles, the second of which it rejects.\<close>

definition sample_ai :: gemini where
  "sample_ai =
     \<lparr>analyzeContent =
        (\<lambda>text. if text = ''unreadable'' then Inl (Error ''EnrichmentUnavailable'')
                else Inr \<lparr>an_summary = take 10 text, an_sentiment = ''neutral'',
                          an_keywords = [], an_topics = []\<rparr>),
      generateEmbedding = (\<lambda>text. Inr [1, 0])\<rparr>"

definition art_bad :: article where
  "art_bad = art1\<lparr>art_id := ''a3'', content := ''unreadable''\<rparr>"

definition sample_batch :: "article list" where
  "sample_batch = [art1, art_bad, art2]"

text \<open>The same batch with the third article replaced by a later story that carries the
  id of the first.\<close>

definition art1_later :: article where
  "art1_later = art1\<lparr>title := ''Redis 8.2 released'', content := ''A later story''\<rparr>"

definition dup_batch :: "article list" where
  "dup_batch = [art1, art_bad, art1_later]"

text \<open>
  A server with three articles, stored newest first: \<^verbatim>\<open>a2\<close> (sports, instant 2000),
  \<^verbatim>\<open>a1\<close> (technology, instant 1000) and \<^verbatim>\<open>a4\<close> (politics, instant 500). Its reader
  \<^verbatim>\<open>u1\<close> chose the topics technology and sports, the source \<^verbatim>\<open>wire\<close> and positive
  sentiment. The matcher understands the reader's query, and one text query with all
  four filters set.
\<close>

definition art_late :: article where
  "art_late = art2\<lparr>sentiment := ''positive''\<rparr>"

definition art_old :: article where
  "art_old = art1\<lparr>art_id := ''a4'', topic := ''politics'', publishedAt := 500\<rparr>"

definition prefs_desk :: user_preferences where
  "prefs_desk =
     \<lparr>pref_topics = [''technology'', ''sports''], pref_sources = [''wire''],
      pref_sentiment = ''positive'', pref_language = ''en'', updatedAt = 0\<rparr>"

definition desk_server :: redis where
  "desk_server =
     redis0\<lparr>json_docs := [(''a2'', art_late), (''a1'', art1), (''a4'', art_old)],
            preferences := [''u1'' \<mapsto> (prefs_desk, 2592000000)]\<rparr>"

definition desk_filters :: search_filters where
  "desk_filters =
     \<lparr>f_sentiment = ''positive'', f_topic = ''technology'', f_source = ''wire'',
      f_dateRange = Some (''0'', ''5000''), f_page = Some 1, f_limit = Some 12\<rparr>"

definition desk_matcher :: matcher where
  "desk_matcher query a =
     ((query = ''@topic:{technology|sports} @source:{wire} @sentiment:{positive}'' \<and>
       topic a \<in> {''technology'', ''sports''} \<and> source a = ''wire'' \<and>
       sentiment a = ''positive'') \<or>
      (query = ''(@title:Redis | @content:Redis | @summary:Redis) @sentiment:{positive} @topic:{technology} @source:{wire} @publishedAt:[0 5000]'' \<and>
       take 5 (title a) = ''Redis'' \<and> sentiment a = ''positive'' \<and>
       topic a = ''technology'' \<and> source a = ''wire'' \<and>
       0 \<le> publishedAt a \<and> publishedAt a \<le> 5000))"

text \<open>A server with 1001 articles, published at the instants 0, 1, ..., 1000 (ms); the
  ids are \<^verbatim>\<open>x\<close>, \<^verbatim>\<open>xx\<close>, \<^verbatim>\<open>xxx\<close> and so on. No article has an engagement record.\<close>

definition archive_key :: "nat \<Rightarrow> string" where
  "archive_key n = replicate (Suc n) CHR ''x''"

definition old_article :: "nat \<Rightarrow> article" where
  "old_article n = art1\<lparr>art_id := archive_key n, publishedAt := int n\<rparr>"

definition archive_server :: redis where
  "archive_server =
     redis0\<lparr>json_docs := map (\<lambda>n. (archive_key n, old_article n)) [0..<1001]\<rparr>"

lemmas sample_defs =
  redis0_def art1_def prefs_tech_def reader_server_def topic_matcher_def engaged_server_def
  bookmarked_server_def art2_def pair_server_def ten_topics_def prefs_eleven_def sample_ai_def
  art_bad_def sample_batch_def art1_later_def dup_batch_def art_late_def art_old_def
  prefs_desk_def desk_server_def desk_filters_def desk_matcher_def

section \<open>Properties\<close>

subsection \<open>What a view changes\<close>

lemma feed_frame:
  "json_docs s' = json_docs s \<Longrightarrow> preferences s' = preferences s \<Longrightarrow>
   trending s' = trending s \<Longrightarrow>
   getPersonalizedNews M s' u limit now = getPersonalizedNews M s u limit now"
  by (simp add: getPersonalizedNews_def getUserPreferences_def ft_search_def sorted_matches_def
      getTrendingArticles_def json_get_def split: option.splits)

lemma trackArticleView_frame:
  "json_docs (trackArticleView s u x t) = json_docs s"
  "preferences (trackArticleView s u x t) = preferences s"
  "trending (trackArticleView s u x t) = trending s"
  "viewed (trackArticleView s u x t) u = insert x (viewed s u)"
  by (simp_all add: trackArticleView_def trackEngagement_def Let_def)

text \<open>The feed reads the preferences, the documents and the ranking; a view writes the
  viewed set, the personalized set and the engagement hash. So no view changes any feed.\<close>

lemma trackArticleView_feed_unchanged:
  "getPersonalizedNews M (trackArticleView s u x t) u' limit t'
     = getPersonalizedNews M s u' limit t'"
  by (rule feed_frame) (rule trackArticleView_frame)+

text \<open>
  C1. The claim: once reader U has viewed article X, X is in no later personalized feed
  of U. On the sample server reader \<^verbatim>\<open>u1\<close> has preferences (is personalized) and
  views \<^verbatim>\<open>a1\<close>; afterwards \<^verbatim>\<open>a1\<close> is in U's viewed set, and the next feed of U
  still returns \<^verbatim>\<open>a1\<close>: \<^verbatim>\<open>getPersonalizedNews\<close> never reads the viewed set.
\<close>

theorem viewed_article_stays_in_feed:
  "''a1'' \<in> viewed (trackArticleView reader_server ''u1'' ''a1'' 2000) ''u1'' \<and>
   getUserPreferences (trackArticleView reader_server ''u1'' ''a1'' 2000) ''u1'' 3000
     = Some prefs_tech \<and>
   getPersonalizedNews topic_matcher (trackArticleView reader_server ''u1'' ''a1'' 2000)
       ''u1'' 20 3000
     = Inr (Hits [to_result (''a1'', art1)])"
  by (simp add: trackArticleView_feed_unchanged trackArticleView_frame getUserPreferences_def)
     (simp add: getPersonalizedNews_def getUserPreferences_def lookup_def live_def
       personalized_query_def ft_search_def sorted_matches_def sample_defs)

subsection \<open>Readers without preferences\<close>

text \<open>
  C3, as stated, fails: reader \<^verbatim>\<open>u2\<close> of the sample server has no preferences, and
  the feed does not fail; it is the trending list.
\<close>

theorem no_preferences_counterexample:
  "getUserPreferences reader_server ''u2'' 1000 = None \<and>
   \<not> isl (getPersonalizedNews topic_matcher reader_server ''u2'' 10 1000) \<and>
   getPersonalizedNews topic_matcher reader_server ''u2'' 10 1000 = Inr (Trending [(art1, 1)])"
  by (simp add: getPersonalizedNews_def getUserPreferences_def lookup_def
      getTrendingArticles_def zrevrange_def json_get_def List.map_filter_def
      reader_server_def redis0_def)

text \<open>
  C3, amended: \<^verbatim>\<open>getPersonalizedNews\<close> never fails for want of preferences. A reader
  with no stored, unexpired preferences gets \<^verbatim>\<open>getTrendingArticles(limit)\<close>; a reader
  with stored preferences, empty or not, gets the hits of the query built from them.
\<close>

theorem no_preferences_falls_back_to_trending:
  "(getUserPreferences s u now = None \<longrightarrow>
      getPersonalizedNews M s u limit now = Inr (Trending (getTrendingArticles s limit))) \<and>
   (\<forall>p. getUserPreferences s u now = Some p \<longrightarrow>
      getPersonalizedNews M s u limit now
        = Inr (Hits (map to_result (ft_search M s (personalized_query p) 0 limit))))"
  by (simp add: getPersonalizedNews_def)

theorem no_preferences_falls_back_to_trending_witness:
  "getUserPreferences reader_server ''u2'' 1000 = None \<and>
   getPersonalizedNews topic_matcher reader_server ''u2'' 10 1000
     = Inr (Trending (getTrendingArticles reader_server 10)) \<and>
   getUserPreferences reader_server ''u1'' 1000 = Some prefs_tech \<and>
   getPersonalizedNews topic_matcher reader_server ''u1'' 10 1000
     = Inr (Hits (map to_result
         (ft_search topic_matcher reader_server (personalized_query prefs_tech) 0 10)))"
proof -
  have none: "getUserPreferences reader_server ''u2'' 1000 = None"
    by (simp add: getUserPreferences_def lookup_def reader_server_def redis0_def)
  have some: "getUserPreferences reader_server ''u1'' 1000 = Some prefs_tech"
    by (simp add: getUserPreferences_def lookup_def live_def reader_server_def redis0_def)
  show ?thesis
    using none some
      no_preferences_falls_back_to_trending
        [of reader_server "''u2''" 1000 topic_matcher 10]
      no_preferences_falls_back_to_trending
        [of reader_server "''u1''" 1000 topic_matcher 10]
    by simp
qed

subsection \<open>Engagement score\<close>

text \<open>
  C5, as stated, fails: after one \<^verbatim>\<open>bookmark\<close> event the article has an engagement
  record whose weighted sum of views, likes and shares is 0, and its score is 1.
\<close>

theorem engagement_score_counterexample:
  "hgetall_engagement bookmarked_server ''a1'' 0 \<noteq> [] \<and>
   real_of_int
     (hfield (hgetall_engagement bookmarked_server ''a1'' 0) ''view:count''
      + 2 * hfield (hgetall_engagement bookmarked_server ''a1'' 0) ''like:count''
      + 3 * hfield (hgetall_engagement bookmarked_server ''a1'' 0) ''share:count'') = 0 \<and>
   getEngagementScore bookmarked_server ''a1'' 0 = 1"
  by (simp add: getEngagementScore_def hgetall_engagement_def trackEngagement_def lookup_def
      live_def expire_def hfield_def Let_def bookmarked_server_def redis0_def)

text \<open>
  C5, amended: the score is 1 when the article has no engagement record, and the larger
  of \<open>viewCount + 2 \<times> likeCount + 3 \<times> shareCount\<close> and 1 when it has one; so 5 views,
  2 likes and 1 share score 12.
\<close>

theorem engagement_score_is_floored_weighted_sum:
  "(hgetall_engagement s a now = [] \<longrightarrow> getEngagementScore s a now = 1) \<and>
   (hgetall_engagement s a now \<noteq> [] \<longrightarrow>
      getEngagementScore s a now
        = max (real_of_int
                 (hfield (hgetall_engagement s a now) ''view:count''
                  + 2 * hfield (hgetall_engagement s a now) ''like:count''
                  + 3 * hfield (hgetall_engagement s a now) ''share:count'')) 1) \<and>
   (hgetall_engagement s a now \<noteq> [] \<and>
    hfield (hgetall_engagement s a now) ''view:count'' = 5 \<and>
    hfield (hgetall_engagement s a now) ''like:count'' = 2 \<and>
    hfield (hgetall_engagement s a now) ''share:count'' = 1 \<longrightarrow>
      getEngagementScore s a now = 12)"
  by (simp add: getEngagementScore_def Let_def mult.commute)

theorem engagement_score_is_floored_weighted_sum_witness:
  "hgetall_engagement redis0 ''a1'' 0 = [] \<and> getEngagementScore redis0 ''a1'' 0 = 1 \<and>
   hgetall_engagement engaged_server ''a1'' 0 \<noteq> [] \<and>
   hfield (hgetall_engagement engaged_server ''a1'' 0) ''view:count'' = 5 \<and>
   hfield (hgetall_engagement engaged_server ''a1'' 0) ''like:count'' = 2 \<and>
   hfield (hgetall_engagement engaged_server ''a1'' 0) ''share:count'' = 1 \<and>
   getEngagementScore engaged_server ''a1'' 0 = 12"
proof -
  have empty: "hgetall_engagement redis0 ''a1'' 0 = []"
    by (simp add: hgetall_engagement_def lookup_def redis0_def)
  have stored:
    "hgetall_engagement engaged_server ''a1'' 0
       = [(''view:count'', 5), (''like:count'', 2), (''share:count'', 1), (''last_updated'', 0)]"
    by (simp add: hgetall_engagement_def lookup_def live_def engaged_server_def redis0_def)
  have fields:
    "hfield (hgetall_engagement engaged_server ''a1'' 0) ''view:count'' = 5"
    "hfield (hgetall_engagement engaged_server ''a1'' 0) ''like:count'' = 2"
    "hfield (hgetall_engagement engaged_server ''a1'' 0) ''share:count'' = 1"
    by (simp_all add: stored hfield_def)
  show ?thesis
    using empty fields
      engagement_score_is_floored_weighted_sum [of redis0 "''a1''" 0]
      engagement_score_is_floored_weighted_sum [of engaged_server "''a1''" 0]
    by (simp add: stored)
qed

subsection \<open>Result cache\<close>

text \<open>
  C7, as stated, fails: the payload \<^verbatim>\<open>0\<close>, cached for an hour, is a miss one second
  later.
\<close>

theorem cache_falsy_counterexample:
  "getCache (setCacheWithTTL redis0 ''k'' (JNumber 0) 3600 0) ''k'' 1000 = None"
  by (simp add: getCache_def setCacheWithTTL_def lookup_def expire_def live_def redis0_def)

text \<open>
  C7, amended: for every key, every truthy payload \<open>v\<close> and every positive time to live,
  after \<^verbatim>\<open>setCacheWithTTL(k, v, ttl)\<close> at time \<open>t\<close> a \<^verbatim>\<open>getCache(k)\<close> before
  \<open>t + ttl\<close> returns \<open>v\<close> and a \<^verbatim>\<open>getCache(k)\<close> after \<open>t + ttl\<close> returns
  \<^verbatim>\<open>null\<close>; for every falsy payload (\<^verbatim>\<open>null\<close>, \<^verbatim>\<open>false\<close>, \<^verbatim>\<open>0\<close>, \<^verbatim>\<open>''\<close>),
  every time to live and every instant, \<^verbatim>\<open>getCache(k)\<close> returns \<^verbatim>\<open>null\<close>. (Times are
  in milliseconds, \<open>ttl\<close> in seconds.)
\<close>

theorem cache_roundtrip_truthy:
  "(truthy v \<and> 0 < seconds \<longrightarrow>
      (t \<le> t' \<and> t' < t + seconds * 1000 \<longrightarrow>
         getCache (setCacheWithTTL s k v seconds t) k t' = Some v) \<and>
      (t + seconds * 1000 < t' \<longrightarrow>
         getCache (setCacheWithTTL s k v seconds t) k t' = None)) \<and>
   (\<not> truthy v \<longrightarrow> getCache (setCacheWithTTL s k v seconds t) k t' = None)"
  by (simp add: getCache_def setCacheWithTTL_def lookup_def expire_def live_def)

theorem cache_roundtrip_truthy_witness:
  "truthy (JString ''page-1'') \<and> truthy (JArray []) \<and> (0::int) < 3600 \<and>
   getCache (setCacheWithTTL redis0 ''k'' (JString ''page-1'') 3600 0) ''k'' 1000
     = Some (JString ''page-1'') \<and>
   getCache (setCacheWithTTL redis0 ''k'' (JArray []) 3600 0) ''k'' 1000 = Some (JArray []) \<and>
   getCache (setCacheWithTTL redis0 ''k'' (JString ''page-1'') 3600 0) ''k'' 3600001 = None \<and>
   \<not> truthy JNull \<and> \<not> truthy (JBool False) \<and> \<not> truthy (JNumber 0) \<and>
   \<not> truthy (JString []) \<and>
   getCache (setCacheWithTTL redis0 ''k'' JNull 3600 0) ''k'' 1000 = None \<and>
   getCache (setCacheWithTTL redis0 ''k'' (JBool False) 3600 0) ''k'' 1000 = None \<and>
   getCache (setCacheWithTTL redis0 ''k'' (JString []) 3600 0) ''k'' 1000 = None"
  using
    cache_roundtrip_truthy [of "JString ''page-1''" 3600 0 1000 redis0 "''k''"]
    cache_roundtrip_truthy [of "JArray []" 3600 0 1000 redis0 "''k''"]
    cache_roundtrip_truthy [of "JString ''page-1''" 3600 0 3600001 redis0 "''k''"]
    cache_roundtrip_truthy [of JNull 3600 0 1000 redis0 "''k''"]
    cache_roundtrip_truthy [of "JBool False" 3600 0 1000 redis0 "''k''"]
    cache_roundtrip_truthy [of "JString []" 3600 0 1000 redis0 "''k''"]
  by simp

subsection \<open>Topic bound\<close>

text \<open>
  C9, as stated, fails: \<^verbatim>\<open>storeUserPreferences\<close> accepts eleven topics, returns
  \<^verbatim>\<open>true\<close>, and the stored record reads back with its eleven topics.
\<close>

theorem eleven_topics_counterexample:
  "fst (storeUserPreferences redis0 ''u1'' prefs_eleven 0) = True \<and>
   map_option (\<lambda>p. length (pref_topics p))
     (getUserPreferences (snd (storeUserPreferences redis0 ''u1'' prefs_eleven 0)) ''u1'' 1000)
     = Some 11"
  by (simp add: storeUserPreferences_def getUserPreferences_def lookup_def live_def expire_def
      prefs_eleven_def ten_topics_def prefs_tech_def redis0_def)

text \<open>
  C9, amended: the bound of 10 topics is kept by the preference dialog, not by the
  store. \<^verbatim>\<open>toggleTopic\<close> never grows a selection of at most 10 topics beyond 10: on a
  selection of 10 it refuses a new topic (the selection stays, a toast
  \<^verbatim>\<open>Maximum reached\<close> is raised), below 10 it appends it. \<^verbatim>\<open>storeUserPreferences\<close>
  checks nothing: for every topic list, so also for one of exactly 10, it returns
  \<^verbatim>\<open>true\<close> and the record reads back as submitted.
\<close>

theorem topic_bound_kept_by_dialog:
  "(length prev \<le> 10 \<longrightarrow> length (fst (toggleTopic tp prev)) \<le> 10) \<and>
   (10 \<le> length prev \<and> toLowerCase tp \<notin> set prev \<longrightarrow>
      toggleTopic tp prev = (prev, Some ''Maximum reached'')) \<and>
   (length prev < 10 \<and> toLowerCase tp \<notin> set prev \<longrightarrow>
      toggleTopic tp prev = (prev @ [toLowerCase tp], None)) \<and>
   fst (storeUserPreferences s u p now) = True \<and>
   getUserPreferences (snd (storeUserPreferences s u p now)) u now
     = Some (p\<lparr>updatedAt := now\<rparr>)"
  by (auto simp add: toggleTopic_def Let_def storeUserPreferences_def getUserPreferences_def
      lookup_def live_def expire_def intro: order_trans [OF length_filter_le])

theorem topic_bound_kept_by_dialog_witness:
  "length ten_topics \<le> 10 \<and> toLowerCase ''Weather'' \<notin> set ten_topics \<and>
   toggleTopic ''Weather'' ten_topics = (ten_topics, Some ''Maximum reached'') \<and>
   length (butlast ten_topics) < 10 \<and> toLowerCase ''Arts'' \<notin> set (butlast ten_topics) \<and>
   toggleTopic ''Arts'' (butlast ten_topics) = (ten_topics, None) \<and>
   length (pref_topics (prefs_tech\<lparr>pref_topics := ten_topics\<rparr>)) = 10 \<and>
   fst (storeUserPreferences redis0 ''u1'' (prefs_tech\<lparr>pref_topics := ten_topics\<rparr>) 0) = True \<and>
   map_option pref_topics
     (getUserPreferences
        (snd (storeUserPreferences redis0 ''u1'' (prefs_tech\<lparr>pref_topics := ten_topics\<rparr>) 0))
        ''u1'' 0)
     = Some ten_topics"
proof -
  have l1: "toLowerCase ''Weather'' = ''weather''" by code_simp
  have l2: "toLowerCase ''Arts'' = ''arts''" by code_simp
  have h1: "length ten_topics \<le> 10" "10 \<le> length ten_topics" "length ten_topics = 10"
    "toLowerCase ''Weather'' \<notin> set ten_topics"
    by (simp_all add: l1 ten_topics_def)
  have h2: "length (butlast ten_topics) < 10" "toLowerCase ''Arts'' \<notin> set (butlast ten_topics)"
    "butlast ten_topics @ [toLowerCase ''Arts''] = ten_topics"
    by (simp_all add: l2 ten_topics_def)
  show ?thesis
    using h1 h2
      topic_bound_kept_by_dialog
        [of ten_topics "''Weather''" redis0 "''u1''" "prefs_tech\<lparr>pref_topics := ten_topics\<rparr>" 0]
      topic_bound_kept_by_dialog
        [of "butlast ten_topics" "''Arts''" redis0 "''u1''"
            "prefs_tech\<lparr>pref_topics := ten_topics\<rparr>" 0]
    by simp
qed

subsection \<open>Windows of sorted lists\<close>

text \<open>In a list sorted by \<open>f\<close>, no element of the first \<open>n\<close> has a larger \<open>f\<close> than an
  element after them; and an element with at most \<open>n\<close> elements not above it is among
  the first \<open>n\<close>.\<close>

lemma window_before_rest:
  assumes "sorted (map f xs)" "x \<in> set (take n xs)" "y \<in> set (drop n xs)"
  shows "f x \<le> f y"
proof -
  have "sorted (map f (take n xs) @ map f (drop n xs))"
    using assms(1) by (simp flip: map_append)
  with assms(2,3) show ?thesis by (auto simp add: sorted_append)
qed

lemma early_in_window:
  assumes srt: "sorted (map f xs)" and x: "x \<in> set xs"
    and few: "length (filter (\<lambda>c. f c \<le> f x) xs) \<le> n"
  shows "x \<in> set (take n xs)"
proof (rule ccontr)
  assume out: "x \<notin> set (take n xs)"
  have "set xs = set (take n xs) \<union> set (drop n xs)"
    by (metis append_take_drop_id set_append)
  with x out have rest: "x \<in> set (drop n xs)" by auto
  then have "drop n xs \<noteq> []" by auto
  then have len: "length (take n xs) = n" by simp
  have "filter (\<lambda>c. f c \<le> f x) (take n xs) = take n xs"
    using window_before_rest [OF srt _ rest] by (simp add: filter_id_conv)
  moreover have "filter (\<lambda>c. f c \<le> f x) (drop n xs) \<noteq> []"
    using rest by (auto simp add: filter_empty_conv)
  moreover have "filter (\<lambda>c. f c \<le> f x) xs
      = filter (\<lambda>c. f c \<le> f x) (take n xs) @ filter (\<lambda>c. f c \<le> f x) (drop n xs)"
    by (metis append_take_drop_id filter_append)
  ultimately have "n < length (filter (\<lambda>c. f c \<le> f x) xs)"
    using len by (cases "filter (\<lambda>c. f c \<le> f x) (drop n xs)") simp_all
  with few show False by simp
qed

subsection \<open>Result windows\<close>

lemma to_result_fun:
  "to_result =
     (\<lambda>d. \<lparr>res_id = fst d, res_title = title (snd d), res_content = content (snd d),
            res_sentiment = sentiment (snd d), res_topic = topic (snd d),
            res_source = source (snd d)\<rparr>)"
  by (rule ext) (simp add: to_result_def)

lemma search_query_not_wildcard: "search_query q f \<noteq> ''*''"
  by (simp add: search_query_def)

lemma search_query_ignores_page:
  "search_query q (f\<lparr>f_page := pg, f_limit := lm\<rparr>) = search_query q f"
  by (simp add: search_query_def)

lemma set_sorted_matches:
  "set (sorted_matches M s q) = {d \<in> set (json_docs s). q = ''*'' \<or> M q (snd d)}"
  by (auto simp add: sorted_matches_def)

lemma length_sorted_matches:
  "length (sorted_matches M s q)
     = length (filter (\<lambda>d. q = ''*'' \<or> M q (snd d)) (json_docs s))"
  by (simp add: sorted_matches_def)

lemma sorted_sorted_matches:
  "sorted (map (\<lambda>d. publishedAt (snd d)) (sorted_matches M s q))"
  by (simp add: sorted_matches_def)

lemma archive_key_inj: "archive_key m = archive_key n \<Longrightarrow> m = n"
  using arg_cong [of "archive_key m" "archive_key n" length] by (simp add: archive_key_def)

lemma archive_sorted_matches:
  assumes "\<And>n. n < 1001 \<Longrightarrow> q = ''*'' \<or> M q (old_article n)"
  shows "sorted_matches M archive_server q = json_docs archive_server"
proof -
  have "map (\<lambda>doc. publishedAt (snd doc)) (json_docs archive_server) = map int [0..<1001]"
    by (simp add: archive_server_def redis0_def old_article_def comp_def del: upt_Suc)
  moreover have "sorted (map int [0..<1001])"
    by (simp add: sorted_map del: upt_Suc)
  moreover have "filter (\<lambda>doc. q = ''*'' \<or> M q (snd doc)) (json_docs archive_server)
      = json_docs archive_server"
    using assms by (auto simp add: filter_id_conv archive_server_def simp del: upt_Suc)
  ultimately show ?thesis
    by (simp add: sorted_matches_def sort_key_id_if_sorted)
qed

lemma desk_queries:
  "personalized_query prefs_desk
     = ''@topic:{technology|sports} @source:{wire} @sentiment:{positive}''"
  "search_query ''Redis'' desk_filters
     = ''(@title:Redis | @content:Redis | @summary:Redis) @sentiment:{positive} @topic:{technology} @source:{wire} @publishedAt:[0 5000]''"
  by (simp_all add: personalized_query_def prefs_desk_def search_query_def desk_filters_def)

text \<open>
  C10. \<^verbatim>\<open>searchArticles\<close> reads neither \<^verbatim>\<open>page\<close> nor \<^verbatim>\<open>limit\<close> of the object it is
  given: two calls that differ only there return the same list. That list is the first
  50 entries of the list \<open>L\<close> of all stored documents that match the query, sorted by
  publication time (oldest first), so no document after the first 50 of \<open>L\<close> is ever
  returned. \<^verbatim>\<open>getPersonalizedNews\<close> has the parameters \<^verbatim>\<open>userId\<close> and \<^verbatim>\<open>limit\<close> and
  no page: for a reader with preferences there is one list \<open>L\<close>, the stored documents
  that match the reader's query, sorted oldest first, and for every \<open>limit\<close> the feed is
  the first \<open>limit\<close> entries of \<open>L\<close>. Both windows start at offset 0.
\<close>

theorem search_and_feed_return_first_window:
  "searchArticles M s q (f\<lparr>f_page := pg, f_limit := lm\<rparr>) = searchArticles M s q f \<and>
   (\<exists>L. searchArticles M s q f
           = map (\<lambda>d. \<lparr>res_id = fst d, res_title = title (snd d),
                        res_content = content (snd d), res_sentiment = sentiment (snd d),
                        res_topic = topic (snd d), res_source = source (snd d)\<rparr>)
               (take 50 L) \<and>
        set L = {d \<in> set (json_docs s). M (search_query q f) (snd d)} \<and>
        length L = length (filter (\<lambda>d. M (search_query q f) (snd d)) (json_docs s)) \<and>
        sorted (map (\<lambda>d. publishedAt (snd d)) L) \<and>
        (\<forall>x\<in>set (take 50 L). \<forall>y\<in>set (drop 50 L).
           publishedAt (snd x) \<le> publishedAt (snd y))) \<and>
   (\<forall>p. getUserPreferences s u now = Some p \<longrightarrow>
      (\<exists>L. (\<forall>limit. getPersonalizedNews M s u limit now
                       = Inr (Hits
                           (map (\<lambda>d. \<lparr>res_id = fst d, res_title = title (snd d),
                                        res_content = content (snd d),
                                        res_sentiment = sentiment (snd d),
                                        res_topic = topic (snd d),
                                        res_source = source (snd d)\<rparr>)
                              (take limit L)))) \<and>
           set L = {d \<in> set (json_docs s).
                      personalized_query p = ''*'' \<or> M (personalized_query p) (snd d)} \<and>
           length L = length (filter (\<lambda>d. personalized_query p = ''*'' \<or>
                                          M (personalized_query p) (snd d)) (json_docs s)) \<and>
           sorted (map (\<lambda>d. publishedAt (snd d)) L) \<and>
           (\<forall>limit. \<forall>x\<in>set (take limit L). \<forall>y\<in>set (drop limit L).
              publishedAt (snd x) \<le> publishedAt (snd y))))"
proof -
  have page: "searchArticles M s q (f\<lparr>f_page := pg, f_limit := lm\<rparr>) = searchArticles M s q f"
    by (simp add: searchArticles_def search_query_ignores_page)
  have search: "\<exists>L. searchArticles M s q f = map to_result (take 50 L) \<and>
        set L = {d \<in> set (json_docs s). M (search_query q f) (snd d)} \<and>
        length L = length (filter (\<lambda>d. M (search_query q f) (snd d)) (json_docs s)) \<and>
        sorted (map (\<lambda>d. publishedAt (snd d)) L) \<and>
        (\<forall>x\<in>set (take 50 L). \<forall>y\<in>set (drop 50 L).
           publishedAt (snd x) \<le> publishedAt (snd y))"
  proof -
    let ?L = "sorted_matches M s (search_query q f)"
    have "searchArticles M s q f = map to_result (take 50 ?L)"
      by (simp add: searchArticles_def ft_search_def)
    moreover have "set ?L = {d \<in> set (json_docs s). M (search_query q f) (snd d)}"
      by (simp add: set_sorted_matches search_query_not_wildcard)
    moreover have "length ?L
        = length (filter (\<lambda>d. M (search_query q f) (snd d)) (json_docs s))"
      by (simp add: length_sorted_matches search_query_not_wildcard)
    moreover have "\<forall>x\<in>set (take 50 ?L). \<forall>y\<in>set (drop 50 ?L).
        publishedAt (snd x) \<le> publishedAt (snd y)"
      using window_before_rest [OF sorted_sorted_matches] by blast
    ultimately show ?thesis
      using sorted_sorted_matches by blast
  qed
  have feed: "\<exists>L. (\<forall>limit. getPersonalizedNews M s u limit now
                       = Inr (Hits (map to_result (take limit L)))) \<and>
           set L = {d \<in> set (json_docs s).
                      personalized_query p = ''*'' \<or> M (personalized_query p) (snd d)} \<and>
           length L = length (filter (\<lambda>d. personalized_query p = ''*'' \<or>
                                          M (personalized_query p) (snd d)) (json_docs s)) \<and>
           sorted (map (\<lambda>d. publishedAt (snd d)) L) \<and>
           (\<forall>limit. \<forall>x\<in>set (take limit L). \<forall>y\<in>set (drop limit L).
              publishedAt (snd x) \<le> publishedAt (snd y))"
    if p: "getUserPreferences s u now = Some p" for p
  proof -
    let ?L = "sorted_matches M s (personalized_query p)"
    have "\<forall>limit. getPersonalizedNews M s u limit now
        = Inr (Hits (map to_result (take limit ?L)))"
      using p by (simp add: getPersonalizedNews_def ft_search_def)
    moreover have "\<forall>limit. \<forall>x\<in>set (take limit ?L). \<forall>y\<in>set (drop limit ?L).
        publishedAt (snd x) \<le> publishedAt (snd y)"
      using window_before_rest [OF sorted_sorted_matches] by blast
    ultimately show ?thesis
      using sorted_sorted_matches set_sorted_matches length_sorted_matches by blast
  qed
  from page search [unfolded to_result_fun] feed [unfolded to_result_fun]
  show ?thesis by blast
qed

text \<open>On the archive server the text query matches all 1001 articles and the search
  returns the 50 oldest, whatever page is asked for. On the desk server two of the three
  articles match the reader's query; the feed of size 1 is the older of the two, the
  feed of size 2 is both, and the article that does not match is in neither.\<close>

theorem search_and_feed_return_first_window_witness:
  "searchArticles desk_matcher archive_server ''Redis'' desk_filters
     = map (\<lambda>n. to_result (archive_key n, old_article n)) [0..<50] \<and>
   searchArticles desk_matcher archive_server ''Redis''
       (desk_filters\<lparr>f_page := Some 3, f_limit := Some 12\<rparr>)
     = map (\<lambda>n. to_result (archive_key n, old_article n)) [0..<50] \<and>
   length (searchArticles desk_matcher archive_server ''Redis'' desk_filters) = 50 \<and>
   getUserPreferences desk_server ''u1'' 1000 = Some prefs_desk \<and>
   getPersonalizedNews desk_matcher desk_server ''u1'' 1 1000
     = Inr (Hits [\<lparr>res_id = ''a1'', res_title = ''Redis 8 released'',
                   res_content = ''Redis 8 adds vector sets'', res_sentiment = ''positive'',
                   res_topic = ''technology'', res_source = ''wire''\<rparr>]) \<and>
   getPersonalizedNews desk_matcher desk_server ''u1'' 2 1000
     = Inr (Hits [to_result (''a1'', art1), to_result (''a2'', art_late)]) \<and>
   getPersonalizedNews desk_matcher desk_server ''u1'' 20 1000
     = Inr (Hits [to_result (''a1'', art1), to_result (''a2'', art_late)])"
proof -
  have all: "sorted_matches desk_matcher archive_server (search_query ''Redis'' desk_filters)
      = json_docs archive_server"
    by (rule archive_sorted_matches)
       (simp add: desk_queries desk_matcher_def old_article_def art1_def)
  have page1: "searchArticles desk_matcher archive_server ''Redis'' desk_filters
      = map (\<lambda>n. to_result (archive_key n, old_article n)) [0..<50]"
    by (simp add: searchArticles_def ft_search_def all)
       (simp add: archive_server_def take_map comp_def del: upt_Suc)
  have page3: "searchArticles desk_matcher archive_server ''Redis''
        (desk_filters\<lparr>f_page := Some 3, f_limit := Some 12\<rparr>)
      = searchArticles desk_matcher archive_server ''Redis'' desk_filters"
    using search_and_feed_return_first_window
      [where M = desk_matcher and s = archive_server and q = "''Redis''" and f = desk_filters
         and pg = "Some 3" and lm = "Some 12"]
    by blast
  have some: "getUserPreferences desk_server ''u1'' 1000 = Some prefs_desk"
    by (simp add: getUserPreferences_def lookup_def live_def desk_server_def redis0_def)
  have L: "sorted_matches desk_matcher desk_server (personalized_query prefs_desk)
      = [(''a1'', art1), (''a2'', art_late)]"
    by (simp add: desk_queries) (simp add: sorted_matches_def sample_defs)
  have feed: "getPersonalizedNews desk_matcher desk_server ''u1'' n 1000
      = Inr (Hits (map to_result (take n [(''a1'', art1), (''a2'', art_late)])))" for n
    using some by (simp add: getPersonalizedNews_def ft_search_def L)
  have hit: "to_result (''a1'', art1)
      = \<lparr>res_id = ''a1'', res_title = ''Redis 8 released'',
         res_content = ''Redis 8 adds vector sets'', res_sentiment = ''positive'',
         res_topic = ''technology'', res_source = ''wire''\<rparr>"
    by (simp add: to_result_def art1_def)
  from page1 page3 some feed [of 1] feed [of 2] feed [of 20] show ?thesis
    unfolding hit [symmetric] by simp
qed

subsection \<open>Batch ingestion\<close>

lemma json_docs_updateTrendingArticles [simp]:
  "json_docs (updateTrendingArticles M s now) = json_docs s"
  by (simp add: updateTrendingArticles_def)

lemma json_get_updateTrendingArticles [simp]:
  "json_get (updateTrendingArticles M s now) k = json_get s k"
  by (simp add: json_get_def)

lemma processNewsArticle_isl:
  "isl (fst (processNewsArticle ai M s a now)) = rejects ai a"
  by (simp add: processNewsArticle_def rejects_def Let_def split: sum.splits)

text \<open>What one article does to the documents.\<close>

lemma json_docs_processNewsArticle:
  "json_docs (snd (processNewsArticle ai M s a now)) =
     (case analyzeContent ai (content a) of
        Inl e \<Rightarrow> json_docs s
      | Inr an \<Rightarrow>
          (case generateEmbedding ai (content a) of
             Inl e \<Rightarrow> json_docs s
           | Inr emb \<Rightarrow> AList.update (art_id a) (stored_doc a an emb) (json_docs s)))"
  by (simp add: processNewsArticle_def storeArticle_def json_set_def stored_doc_def Let_def
      split: sum.splits)

lemma processNewsArticle_stores:
  "analyzeContent ai (content a) = Inr an \<Longrightarrow> generateEmbedding ai (content a) = Inr emb \<Longrightarrow>
   json_get (snd (processNewsArticle ai M s a now)) (art_id a) = Some (stored_doc a an emb)"
  by (simp add: json_get_def json_docs_processNewsArticle update_conv')

lemma processNewsArticle_other:
  "k \<noteq> art_id a \<Longrightarrow> json_get (snd (processNewsArticle ai M s a now)) k = json_get s k"
  by (simp add: json_get_def json_docs_processNewsArticle update_conv' split: sum.splits)

lemma processNewsArticle_rejected:
  "rejects ai a \<Longrightarrow> json_get (snd (processNewsArticle ai M s a now)) k = json_get s k"
  by (auto simp add: json_get_def json_docs_processNewsArticle rejects_def split: sum.splits)

lemma settle_all_untouched:
  "\<forall>a\<in>set as. art_id a = k \<longrightarrow> rejects ai a \<Longrightarrow>
   json_get (snd (settle_all ai M s as now)) k = json_get s k"
proof (induction as arbitrary: s)
  case Nil
  then show ?case by simp
next
  case (Cons b bs)
  have "json_get (snd (processNewsArticle ai M s b now)) k = json_get s k"
  proof (cases "art_id b = k")
    case True
    with Cons.prems show ?thesis by (simp add: processNewsArticle_rejected)
  next
    case False
    then show ?thesis by (simp add: processNewsArticle_other)
  qed
  with Cons show ?case by (simp add: Let_def)
qed

lemma settle_all_other:
  "k \<notin> art_id ` set as \<Longrightarrow> json_get (snd (settle_all ai M s as now)) k = json_get s k"
  by (rule settle_all_untouched) auto

lemma settle_all_stores:
  assumes "distinct (map art_id as)" "a \<in> set as"
    "analyzeContent ai (content a) = Inr an" "generateEmbedding ai (content a) = Inr emb"
  shows "json_get (snd (settle_all ai M s as now)) (art_id a) = Some (stored_doc a an emb)"
  using assms(1,2)
proof (induction as arbitrary: s)
  case Nil
  then show ?case by simp
next
  case (Cons b bs)
  show ?case
  proof (cases "a = b")
    case True
    with Cons.prems have "art_id a \<notin> art_id ` set bs" by auto
    with True assms(3,4) show ?thesis
      by (simp add: Let_def settle_all_other processNewsArticle_stores)
  next
    case False
    with Cons show ?thesis by (simp add: Let_def)
  qed
qed

lemma settle_all_isl:
  "map isl (fst (settle_all ai M s as now)) = map (rejects ai) as"
  by (induction as arbitrary: s) (simp_all add: Let_def processNewsArticle_isl)

lemma count_rejected:
  "length (filter isl (fst (settle_all ai M s as now))) = length (filter (rejects ai) as)"
proof -
  have "length (filter isl (fst (settle_all ai M s as now)))
        = length (filter (\<lambda>b. b) (map isl (fst (settle_all ai M s as now))))"
    by (simp add: filter_map comp_def)
  also have "\<dots> = length (filter (\<lambda>b. b) (map (rejects ai) as))"
    by (simp only: settle_all_isl)
  also have "\<dots> = length (filter (rejects ai) as)"
    by (simp add: filter_map comp_def)
  finally show ?thesis .
qed

lemma count_fulfilled:
  "length (filter (\<lambda>r. \<not> isl r) (fst (settle_all ai M s as now)))
     = length as - length (filter (rejects ai) as)"
proof -
  have "length (fst (settle_all ai M s as now)) = length as"
    using arg_cong [OF settle_all_isl, of length ai M s as now] by simp
  moreover have "length (filter isl (fst (settle_all ai M s as now)))
      + length (filter (\<lambda>r. \<not> isl r) (fst (settle_all ai M s as now)))
      = length (fst (settle_all ai M s as now))"
    by (rule sum_length_filter_compl)
  ultimately show ?thesis by (simp add: count_rejected)
qed

lemma one_rejected:
  assumes "m < length as" "P (as ! m)" "\<forall>i<length as. i \<noteq> m \<longrightarrow> \<not> P (as ! i)"
  shows "length (filter P as) = 1"
proof -
  have "{i. i < length as \<and> P (as ! i)} = {m}"
    using assms by auto
  then show ?thesis by (simp add: length_filter_conv_card)
qed

lemma sample_calls:
  "analyzeContent sample_ai (content art1)
     = Inr \<lparr>an_summary = ''Redis 8 ad'', an_sentiment = ''neutral'', an_keywords = [],
            an_topics = []\<rparr>"
  "analyzeContent sample_ai (content art2)
     = Inr \<lparr>an_summary = ''Kick-off i'', an_sentiment = ''neutral'', an_keywords = [],
            an_topics = []\<rparr>"
  "analyzeContent sample_ai (content art1_later)
     = Inr \<lparr>an_summary = ''A later st'', an_sentiment = ''neutral'', an_keywords = [],
            an_topics = []\<rparr>"
  "analyzeContent sample_ai (content art_bad) = Inl (Error ''EnrichmentUnavailable'')"
  "generateEmbedding sample_ai text = Inr [1, 0]"
  by (simp_all add: sample_ai_def art1_def art2_def art1_later_def art_bad_def)

text \<open>
  C8, as stated, fails. In the batch \<^verbatim>\<open>[a1, a3, a1]\<close> only the analysis of \<^verbatim>\<open>a3\<close> is
  rejected, and the report is \<open>total = 3\<close>, \<open>successful = 2\<close>, \<open>failed = 1\<close>; but both
  successful articles carry the id \<^verbatim>\<open>a1\<close>, so the store holds one document afterwards,
  the later story, and the first article of the batch is not in it.
\<close>

theorem batch_shared_id_counterexample:
  "length dup_batch = 3 \<and>
   isl (analyzeContent sample_ai (content (dup_batch ! 1))) \<and>
   \<not> isl (analyzeContent sample_ai (content (dup_batch ! 0))) \<and>
   \<not> isl (generateEmbedding sample_ai (content (dup_batch ! 0))) \<and>
   \<not> isl (analyzeContent sample_ai (content (dup_batch ! 2))) \<and>
   \<not> isl (generateEmbedding sample_ai (content (dup_batch ! 2))) \<and>
   fst (processBatch sample_ai topic_matcher redis0 dup_batch 5000)
     = Inr \<lparr>total = 3, successful = 2, failed = 1\<rparr> \<and>
   title (dup_batch ! 0) = ''Redis 8 released'' \<and>
   map (\<lambda>doc. (fst doc, title (snd doc)))
       (json_docs (snd (processBatch sample_ai topic_matcher redis0 dup_batch 5000)))
     = [(''a1'', ''Redis 8.2 released'')]"
proof -
  have calls:
    "isl (analyzeContent sample_ai (content (dup_batch ! 1)))"
    "\<not> isl (analyzeContent sample_ai (content (dup_batch ! 0)))"
    "\<not> isl (generateEmbedding sample_ai (content (dup_batch ! 0)))"
    "\<not> isl (analyzeContent sample_ai (content (dup_batch ! 2)))"
    "\<not> isl (generateEmbedding sample_ai (content (dup_batch ! 2)))"
    by (simp_all add: dup_batch_def sample_calls)
  have "filter (rejects sample_ai) dup_batch = [art_bad]"
    by (simp add: dup_batch_def rejects_def sample_calls)
  then have report: "fst (processBatch sample_ai topic_matcher redis0 dup_batch 5000)
      = Inr \<lparr>total = 3, successful = 2, failed = 1\<rparr>"
    by (simp add: processBatch_def Let_def count_rejected count_fulfilled)
       (simp add: dup_batch_def)
  have docs: "json_docs (snd (processBatch sample_ai topic_matcher redis0 dup_batch 5000))
      = [(''a1'', stored_doc art1_later
                   \<lparr>an_summary = ''A later st'', an_sentiment = ''neutral'', an_keywords = [],
                    an_topics = []\<rparr> [1, 0])]"
    by (simp add: processBatch_def Let_def dup_batch_def json_docs_processNewsArticle
        sample_calls)
       (simp add: redis0_def art1_def art1_later_def art_bad_def)
  have "title (dup_batch ! 0) = ''Redis 8 released''"
    by (simp add: dup_batch_def art1_def)
  with calls report docs show ?thesis
    by (simp add: stored_doc_def art1_later_def) (simp add: dup_batch_def)
qed

text \<open>
  C8, amended: in a batch of \<open>N\<close> articles with pairwise different ids, where the
  analysis of article number \<open>m\<close> is rejected and both provider calls of every other
  article succeed, \<^verbatim>\<open>processBatch\<close> does not throw; it reports \<open>total = N\<close>,
  \<open>successful = N - 1\<close>, \<open>failed = 1\<close>; afterwards the store holds, under the id of every
  other article, that article with the provider's summary, sentiment, keywords and
  embedding; and what the store holds under the id of article \<open>m\<close> is what it held
  before. (Articles of one batch that share an id overwrite each other.)
\<close>

theorem batch_isolates_one_failure:
  assumes "distinct (map art_id articles)"
    and "m < length articles"
    and "isl (analyzeContent ai (content (articles ! m)))"
    and "\<forall>i<length articles. i \<noteq> m \<longrightarrow>
           \<not> isl (analyzeContent ai (content (articles ! i))) \<and>
           \<not> isl (generateEmbedding ai (content (articles ! i)))"
  shows "fst (processBatch ai M s articles now)
           = Inr \<lparr>total = length articles, successful = length articles - 1, failed = 1\<rparr> \<and>
         (\<forall>i<length articles. i \<noteq> m \<longrightarrow>
            (\<exists>an emb.
               analyzeContent ai (content (articles ! i)) = Inr an \<and>
               generateEmbedding ai (content (articles ! i)) = Inr emb \<and>
               json_get (snd (processBatch ai M s articles now)) (art_id (articles ! i))
                 = Some \<lparr>art_id = art_id (articles ! i), title = title (articles ! i),
                         content = content (articles ! i), summary = an_summary an,
                         sentiment = an_sentiment an, topic = topic (articles ! i),
                         source = source (articles ! i), url = url (articles ! i),
                         publishedAt = publishedAt (articles ! i), embedding = Some emb,
                         art_keywords = an_keywords an\<rparr>)) \<and>
         json_get (snd (processBatch ai M s articles now)) (art_id (articles ! m))
           = json_get s (art_id (articles ! m))"
proof -
  have one: "length (filter (rejects ai) articles) = 1"
    using assms(2-4) by (intro one_rejected [of m]) (auto simp add: rejects_def)
  have report: "fst (processBatch ai M s articles now)
      = Inr \<lparr>total = length articles, successful = length articles - 1, failed = 1\<rparr>"
    by (simp add: processBatch_def Let_def count_rejected count_fulfilled one)
  have final: "snd (processBatch ai M s articles now) = snd (settle_all ai M s articles now)"
    by (simp add: processBatch_def Let_def)
  have docs: "\<exists>an emb.
      analyzeContent ai (content (articles ! i)) = Inr an \<and>
      generateEmbedding ai (content (articles ! i)) = Inr emb \<and>
      json_get (snd (settle_all ai M s articles now)) (art_id (articles ! i))
        = Some (stored_doc (articles ! i) an emb)"
    if "i < length articles" "i \<noteq> m" for i
  proof -
    from that assms(4) obtain an emb where
      ok: "analyzeContent ai (content (articles ! i)) = Inr an"
          "generateEmbedding ai (content (articles ! i)) = Inr emb"
      by (metis sum.collapse(2))
    from that have "articles ! i \<in> set articles" by simp
    from settle_all_stores [OF assms(1) this ok] ok show ?thesis by blast
  qed
  have failed_doc: "json_get (snd (settle_all ai M s articles now)) (art_id (articles ! m))
      = json_get s (art_id (articles ! m))"
  proof (rule settle_all_untouched, intro ballI impI)
    fix a assume a: "a \<in> set articles" "art_id a = art_id (articles ! m)"
    from a(1) obtain i where i: "i < length articles" "articles ! i = a"
      by (auto simp add: in_set_conv_nth)
    with a(2) assms(1,2) have "i = m"
      by (auto simp add: distinct_conv_nth)
    with i assms(3) show "rejects ai a" by (auto simp add: rejects_def)
  qed
  from report docs failed_doc show ?thesis
    by (simp add: final stored_doc_def)
qed

theorem batch_isolates_one_failure_witness:
  "distinct (map art_id sample_batch) \<and> (1::nat) < length sample_batch \<and>
   isl (analyzeContent sample_ai (content (sample_batch ! 1))) \<and>
   \<not> isl (analyzeContent sample_ai (content (sample_batch ! 0))) \<and>
   \<not> isl (generateEmbedding sample_ai (content (sample_batch ! 0))) \<and>
   \<not> isl (analyzeContent sample_ai (content (sample_batch ! 2))) \<and>
   \<not> isl (generateEmbedding sample_ai (content (sample_batch ! 2))) \<and>
   length sample_batch = 3 \<and>
   fst (processBatch sample_ai topic_matcher redis0 sample_batch 5000)
     = Inr \<lparr>total = 3, successful = 2, failed = 1\<rparr> \<and>
   json_get (snd (processBatch sample_ai topic_matcher redis0 sample_batch 5000)) ''a1''
     = Some (art1\<lparr>summary := ''Redis 8 ad'', sentiment := ''neutral'', art_keywords := []\<rparr>) \<and>
   json_get (snd (processBatch sample_ai topic_matcher redis0 sample_batch 5000)) ''a2''
     = Some (art2\<lparr>summary := ''Kick-off i'', embedding := Some [1, 0],
                   art_keywords := []\<rparr>) \<and>
   json_get (snd (processBatch sample_ai topic_matcher redis0 sample_batch 5000)) ''a3'' = None"
proof -
  have h0: "distinct (map art_id sample_batch)"
    by (simp add: sample_batch_def art1_def art2_def art_bad_def)
  have h1: "(1::nat) < length sample_batch" by (simp add: sample_batch_def)
  have h2: "isl (analyzeContent sample_ai (content (sample_batch ! 1)))"
    by (simp add: sample_batch_def sample_calls)
  have others:
    "\<not> isl (analyzeContent sample_ai (content (sample_batch ! 0)))"
    "\<not> isl (generateEmbedding sample_ai (content (sample_batch ! 0)))"
    "\<not> isl (analyzeContent sample_ai (content (sample_batch ! 2)))"
    "\<not> isl (generateEmbedding sample_ai (content (sample_batch ! 2)))"
    by (simp_all add: sample_batch_def sample_calls)
  have len: "length sample_batch = 3" by (simp add: sample_batch_def)
  have h3: "\<forall>i<length sample_batch. i \<noteq> 1 \<longrightarrow>
      \<not> isl (analyzeContent sample_ai (content (sample_batch ! i))) \<and>
      \<not> isl (generateEmbedding sample_ai (content (sample_batch ! i)))"
  proof (intro allI impI)
    fix i assume "i < length sample_batch" "i \<noteq> 1"
    then have "i = 0 \<or> i = 2" by (auto simp add: len)
    with others show "\<not> isl (analyzeContent sample_ai (content (sample_batch ! i))) \<and>
      \<not> isl (generateEmbedding sample_ai (content (sample_batch ! i)))"
      by auto
  qed
  let ?s = "snd (processBatch sample_ai topic_matcher redis0 sample_batch 5000)"
  from batch_isolates_one_failure [OF h0 h1 h2 h3, of topic_matcher redis0 5000]
  have report: "fst (processBatch sample_ai topic_matcher redis0 sample_batch 5000)
        = Inr \<lparr>total = 3, successful = 2, failed = 1\<rparr>"
    and docs: "\<And>i. i < 3 \<Longrightarrow> i \<noteq> 1 \<Longrightarrow>
        \<exists>an emb.
          analyzeContent sample_ai (content (sample_batch ! i)) = Inr an \<and>
          generateEmbedding sample_ai (content (sample_batch ! i)) = Inr emb \<and>
          json_get ?s (art_id (sample_batch ! i))
            = Some \<lparr>art_id = art_id (sample_batch ! i), title = title (sample_batch ! i),
                    content = content (sample_batch ! i), summary = an_summary an,
                    sentiment = an_sentiment an, topic = topic (sample_batch ! i),
                    source = source (sample_batch ! i), url = url (sample_batch ! i),
                    publishedAt = publishedAt (sample_batch ! i), embedding = Some emb,
                    art_keywords = an_keywords an\<rparr>"
    and bad: "json_get ?s (art_id (sample_batch ! 1)) = json_get redis0 (art_id (sample_batch ! 1))"
    by (simp_all add: len)
  from docs [of 0] have d1: "json_get ?s ''a1''
      = Some (art1\<lparr>summary := ''Redis 8 ad'', sentiment := ''neutral'', art_keywords := []\<rparr>)"
    by (simp add: sample_batch_def sample_calls) (simp add: art1_def)
  from docs [of 2] have d2: "json_get ?s ''a2''
      = Some (art2\<lparr>summary := ''Kick-off i'', embedding := Some [1, 0],
                    art_keywords := []\<rparr>)"
    by (simp add: sample_batch_def sample_calls) (simp add: art2_def)
  from bad have d3: "json_get ?s ''a3'' = None"
    by (simp add: sample_batch_def art_bad_def json_get_def redis0_def)
  from h0 h1 h2 others len report d1 d2 d3 show ?thesis by simp
qed

subsection \<open>Similar articles\<close>

lemma ft_search_knn_eq:
  "ft_search_knn D s k v
     = take (min k 10) (sort_key (\<lambda>d. snd (snd d)) (knn_candidates D s v))"
proof -
  let ?L = "sort_key (\<lambda>d. snd (snd d)) (knn_candidates D s v)"
  have "sorted (map (\<lambda>d. snd (snd d)) (take k ?L))"
    by (simp flip: take_map)
  then have "sort_key (\<lambda>d. snd (snd d)) (take k ?L) = take k ?L"
    by (rule sort_key_id_if_sorted)
  then show ?thesis by (simp add: ft_search_knn_def min.commute)
qed

lemma set_knn_candidates:
  "set (knn_candidates D s v)
     = {(key, d, D v w) | key d w. (key, d) \<in> set (json_docs s) \<and> embedding d = Some w}"
  by (auto simp add: knn_candidates_def List.map_filter_def) force

lemma length_knn_candidates:
  "length (knn_candidates D s v)
     = length (filter (\<lambda>doc. embedding (snd doc) \<noteq> None) (json_docs s))"
  by (simp add: knn_candidates_def List.map_filter_def comp_def)

lemma to_similar_fun:
  "to_similar =
     (\<lambda>c. \<lparr>sim_id = fst c, sim_title = title (fst (snd c)),
            sim_content = content (fst (snd c)), sim_sentiment = sentiment (fst (snd c)),
            sim_topic = topic (fst (snd c)), similarity = snd (snd c)\<rparr>)"
  by (rule ext) (simp add: to_similar_def)

lemma cosine_samples:
  "cosine [1, 0] [1, 0] = 0" "cosine [1, 0] [0, 1] = 1"
  "cosine [0, 1] [1, 0] = 1" "cosine [0, 1] [0, 1] = 0"
  by (simp_all add: cosine_def)

text \<open>
  C2, as stated, fails: on the sample server, whose only article is \<^verbatim>\<open>a1\<close>, the
  articles similar to \<^verbatim>\<open>a1\<close> are \<^verbatim>\<open>a1\<close> itself, at distance 0.
\<close>

theorem similar_includes_itself_counterexample:
  "findSimilarArticles cosine reader_server ''a1'' 5 = Inr [to_similar (''a1'', art1, 0)] \<and>
   sim_id (to_similar (''a1'', art1, 0)) = ''a1''"
  by (simp add: findSimilarArticles_def json_get_def ft_search_knn_def knn_candidates_def
      List.map_filter_def cosine_samples to_similar_def reader_server_def redis0_def art1_def)

text \<open>
  C2, amended: let A be a stored article with embedding \<open>v\<close>, and \<open>k\<close> any number. The
  candidates are the stored documents that have an embedding, each with its distance
  from \<open>v\<close>; let \<open>L\<close> be the candidates in order of non-decreasing distance.
  \<^verbatim>\<open>findSimilarArticles(A.id, k)\<close> returns the first \<open>min k 10\<close> entries of \<open>L\<close> (all of
  \<open>L\<close> when it is shorter), each with its distance in the field \<^verbatim>\<open>similarity\<close>: at
  most \<open>k\<close> results, nearest first, and no candidate left out is nearer than one
  returned. A itself is a candidate and is not excluded: it is returned whenever at most
  \<open>min k 10\<close> candidates are as near to \<open>v\<close> as A is.
\<close>

theorem similar_at_most_k_nearest_first:
  assumes "json_get s a = Some q" and "embedding q = Some v"
  shows "\<exists>L. findSimilarArticles D s a k
                = Inr (map (\<lambda>c. \<lparr>sim_id = fst c, sim_title = title (fst (snd c)),
                                  sim_content = content (fst (snd c)),
                                  sim_sentiment = sentiment (fst (snd c)),
                                  sim_topic = topic (fst (snd c)),
                                  similarity = snd (snd c)\<rparr>)
                         (take (min k 10) L)) \<and>
           set L = {(key, d, D v w) | key d w.
                      (key, d) \<in> set (json_docs s) \<and> embedding d = Some w} \<and>
           length L = length (filter (\<lambda>doc. embedding (snd doc) \<noteq> None) (json_docs s)) \<and>
           sorted (map (\<lambda>c. snd (snd c)) L) \<and>
           length (take (min k 10) L) \<le> k \<and>
           (\<forall>x\<in>set (take (min k 10) L). \<forall>y\<in>set (drop (min k 10) L).
              snd (snd x) \<le> snd (snd y)) \<and>
           (a, q, D v v) \<in> set L \<and>
           (length (filter (\<lambda>c. snd (snd c) \<le> D v v) L) \<le> min k 10 \<longrightarrow>
              (a, q, D v v) \<in> set (take (min k 10) L))"
proof -
  let ?sc = "\<lambda>d :: string \<times> article \<times> real. snd (snd d)"
  let ?C = "knn_candidates D s v"
  let ?L = "sort_key ?sc ?C"
  let ?n = "min k 10"
  have run: "findSimilarArticles D s a k = Inr (map to_similar (take ?n ?L))"
    using assms by (simp add: findSimilarArticles_def ft_search_knn_eq)
  have members: "set ?L = {(key, d, D v w) | key d w.
      (key, d) \<in> set (json_docs s) \<and> embedding d = Some w}"
    by (simp add: set_knn_candidates)
  have len: "length ?L = length (filter (\<lambda>doc. embedding (snd doc) \<noteq> None) (json_docs s))"
    by (simp add: length_knn_candidates)
  have srt: "sorted (map ?sc ?L)" by simp
  have atmost: "length (take ?n ?L) \<le> k" by simp
  have near: "\<forall>x\<in>set (take ?n ?L). \<forall>y\<in>set (drop ?n ?L). ?sc x \<le> ?sc y"
    using window_before_rest [OF srt] by blast
  from assms(1) have "(a, q) \<in> set (json_docs s)"
    by (simp add: json_get_def map_of_SomeD)
  with assms(2) have self: "(a, q, D v v) \<in> set ?L"
    by (auto simp add: set_knn_candidates)
  have incl: "length (filter (\<lambda>c. ?sc c \<le> D v v) ?L) \<le> ?n \<longrightarrow>
      (a, q, D v v) \<in> set (take ?n ?L)"
  proof
    assume "length (filter (\<lambda>c. ?sc c \<le> D v v) ?L) \<le> ?n"
    then have "length (filter (\<lambda>c. ?sc c \<le> ?sc (a, q, D v v)) ?L) \<le> ?n" by simp
    with srt self show "(a, q, D v v) \<in> set (take ?n ?L)"
      by (rule early_in_window)
  qed
  from run [unfolded to_similar_fun] members len srt atmost near self incl
  show ?thesis by blast
qed

text \<open>On the server with the two articles \<^verbatim>\<open>a1\<close> and \<^verbatim>\<open>a2\<close>, at cosine distance 1
  from each other, the one article nearest to \<^verbatim>\<open>a1\<close> is \<^verbatim>\<open>a1\<close>, the one nearest to
  \<^verbatim>\<open>a2\<close> is \<^verbatim>\<open>a2\<close>, and the five nearest to \<^verbatim>\<open>a2\<close> are \<^verbatim>\<open>a2\<close>, then \<^verbatim>\<open>a1\<close>.\<close>

theorem similar_at_most_k_nearest_first_witness:
  "json_get pair_server ''a1'' = Some art1 \<and> embedding art1 = Some [1, 0] \<and>
   json_get pair_server ''a2'' = Some art2 \<and> embedding art2 = Some [0, 1] \<and>
   findSimilarArticles cosine pair_server ''a1'' 1
     = Inr [\<lparr>sim_id = ''a1'', sim_title = ''Redis 8 released'',
             sim_content = ''Redis 8 adds vector sets'', sim_sentiment = ''positive'',
             sim_topic = ''technology'', similarity = 0\<rparr>] \<and>
   findSimilarArticles cosine pair_server ''a2'' 1 = Inr [to_similar (''a2'', art2, 0)] \<and>
   findSimilarArticles cosine pair_server ''a2'' 5
     = Inr [to_similar (''a2'', art2, 0), to_similar (''a1'', art1, 1)] \<and>
   (\<exists>L. findSimilarArticles cosine pair_server ''a1'' 1
           = Inr (map to_similar (take (min 1 10) L)) \<and>
        length L = 2 \<and> (''a1'', art1, cosine [1, 0] [1, 0]) \<in> set L)"
proof -
  have q1: "json_get pair_server ''a1'' = Some art1" "embedding art1 = Some [1, 0]"
    by (simp_all add: json_get_def pair_server_def redis0_def art1_def)
  have q2: "json_get pair_server ''a2'' = Some art2" "embedding art2 = Some [0, 1]"
    by (simp_all add: json_get_def pair_server_def redis0_def art2_def)
  have c1: "knn_candidates cosine pair_server [1, 0] = [(''a1'', art1, 0), (''a2'', art2, 1)]"
    by (simp add: knn_candidates_def List.map_filter_def pair_server_def redis0_def
        cosine_samples)
       (simp add: art1_def art2_def cosine_samples)
  have c2: "knn_candidates cosine pair_server [0, 1] = [(''a1'', art1, 1), (''a2'', art2, 0)]"
    by (simp add: knn_candidates_def List.map_filter_def pair_server_def redis0_def
        cosine_samples)
       (simp add: art1_def art2_def cosine_samples)
  have r1: "findSimilarArticles cosine pair_server ''a1'' 1 = Inr [to_similar (''a1'', art1, 0)]"
    by (simp add: findSimilarArticles_def q1 ft_search_knn_def c1)
  have r1': "to_similar (''a1'', art1, 0)
      = \<lparr>sim_id = ''a1'', sim_title = ''Redis 8 released'',
         sim_content = ''Redis 8 adds vector sets'', sim_sentiment = ''positive'',
         sim_topic = ''technology'', similarity = 0\<rparr>"
    by (simp add: to_similar_def art1_def)
  have r2: "findSimilarArticles cosine pair_server ''a2'' 1 = Inr [to_similar (''a2'', art2, 0)]"
    by (simp add: findSimilarArticles_def q2 ft_search_knn_def c2)
  have r3: "findSimilarArticles cosine pair_server ''a2'' 5
      = Inr [to_similar (''a2'', art2, 0), to_similar (''a1'', art1, 1)]"
    by (simp add: findSimilarArticles_def q2 ft_search_knn_def c2)
  have two: "length (filter (\<lambda>doc. embedding (snd doc) \<noteq> None) (json_docs pair_server)) = 2"
    by (simp add: pair_server_def redis0_def art1_def art2_def)
  from similar_at_most_k_nearest_first [OF q1, of cosine 1, folded to_similar_fun]
  have "\<exists>L. findSimilarArticles cosine pair_server ''a1'' 1
           = Inr (map to_similar (take (min 1 10) L)) \<and>
        length L = 2 \<and> (''a1'', art1, cosine [1, 0] [1, 0]) \<in> set L"
    unfolding two by blast
  with q1 q2 r1 r2 r3 show ?thesis unfolding r1' [symmetric] by blast
qed

subsection \<open>Rebuilding the ranking\<close>

lemma update_fresh: "k \<notin> fst ` set al \<Longrightarrow> AList.update k v al = al @ [(k, v)]"
  by (induction al) auto

lemma fold_update_fresh:
  "distinct (map fst xs) \<Longrightarrow> fst ` set xs \<inter> fst ` set acc = {} \<Longrightarrow>
   fold (\<lambda>d. AList.update (fst d) (f d)) xs acc = acc @ map (\<lambda>d. (fst d, f d)) xs"
proof (induction xs arbitrary: acc)
  case Nil
  then show ?case by simp
next
  case (Cons x xs)
  from Cons.prems have fresh: "fst x \<notin> fst ` set acc" by auto
  from Cons.prems have "fst ` set xs \<inter> fst ` set (acc @ [(fst x, f x)]) = {}" by auto
  with Cons.prems Cons.IH [of "acc @ [(fst x, f x)]"] fresh show ?case
    by (simp add: update_fresh)
qed

lemma fold_update_keys:
  "fst ` set (fold (\<lambda>d. AList.update (fst d) (f d)) xs acc) = fst ` set xs \<union> fst ` set acc"
  by (induction xs arbitrary: acc) (auto simp add: dom_update)

lemma fold_update_keys_distinct:
  "distinct (map fst acc) \<Longrightarrow>
   distinct (map fst (fold (\<lambda>d. AList.update (fst d) (f d)) xs acc))"
  by (induction xs arbitrary: acc) (simp_all add: distinct_update)

lemma fold_exec_zadd:
  "fold exec (map (\<lambda>e. ZADD (snd e) (fst e)) xs) z
     = fold (\<lambda>e. AList.update (fst e) (snd e)) xs z"
  by (induction xs arbitrary: z) simp_all

text \<open>After the \<^verbatim>\<open>DEL\<close>, the first \<open>n\<close> commands of a rebuild leave the first \<open>n - 1\<close>
  entries of the new scores in the sorted set.\<close>

lemma set_object_entries [simp]: "set (object_entries xs) = set xs"
  by (auto simp add: object_entries_def)

lemma distinct_object_entries:
  assumes "distinct (map fst xs)"
  shows "distinct (map fst (object_entries xs))"
proof -
  from assms have dx: "distinct xs" and inj: "inj_on fst (set xs)"
    by (simp_all add: distinct_map)
  from dx have "distinct (object_entries xs)"
    by (auto simp add: object_entries_def)
  with inj show ?thesis by (simp add: distinct_map)
qed

lemma map_of_object_entries:
  "distinct (map fst xs) \<Longrightarrow> map_of (object_entries xs) = map_of xs"
  by (simp add: map_of_inject_set distinct_object_entries)

lemma object_entries_single [simp]: "object_entries [e] = [e]"
  by (simp add: object_entries_def)

text \<open>The ids \<^verbatim>\<open>1\<close>, \<^verbatim>\<open>2\<close> and \<^verbatim>\<open>10\<close> are array indices and come first, by value; the
  ids \<^verbatim>\<open>b\<close> and \<^verbatim>\<open>01\<close> are not and keep their order.\<close>

lemma object_entries_sample:
  "object_entries [(''2'', x), (''b'', y), (''10'', w), (''01'', u), (''1'', z)]
     = [(''1'', z), (''2'', x), (''10'', w), (''b'', y), (''01'', u)]"
  by (simp add: object_entries_def is_array_index_def is_digit_def digits_value_def)

lemma rebuild_commands_sample:
  "rebuild_commands [(''2'', x), (''1'', y)] = [DEL, ZADD y ''1'', ZADD x ''2'']"
  by (simp add: rebuild_commands_def object_entries_def is_array_index_def is_digit_def
      digits_value_def)

lemma fold_exec_rebuild:
  assumes "distinct (map fst scores)" and "0 < n"
  shows "fold exec (take n (rebuild_commands scores)) z = take (n - 1) (object_entries scores)"
proof -
  from assms(2) obtain m where m: "n = Suc m" by (cases n) auto
  have "distinct (map fst (take m (object_entries scores)))"
    using distinct_object_entries [OF assms(1)] by (simp flip: take_map)
  then show ?thesis
    by (simp add: m rebuild_commands_def take_map fold_exec_zadd fold_update_fresh)
qed

lemma trendingScores_distinct: "distinct (map fst (trendingScores M s now))"
  by (simp add: trendingScores_def fold_update_keys_distinct)

lemma length_object_entries [simp]: "length (object_entries xs) = length xs"
  using sum_length_filter_compl [of "\<lambda>e. is_array_index (fst e)" xs]
  by (simp add: object_entries_def)

lemma trending_updateTrendingArticles:
  "trending (updateTrendingArticles M s now) = object_entries (trendingScores M s now)"
  using fold_exec_rebuild
    [OF trendingScores_distinct, of "Suc (length (trendingScores M s now))" M s now "trending s"]
  by (simp add: updateTrendingArticles_def rebuild_commands_def)

lemma trending_keys:
  "fst ` set (trending (updateTrendingArticles M s now)) = fst ` set (ft_search M s ''*'' 0 1000)"
  by (simp add: trending_updateTrendingArticles trendingScores_def fold_update_keys)

lemma getTrendingArticles_members:
  assumes "x \<in> set (getTrendingArticles s limit)"
  shows "\<exists>k. (k, snd x) \<in> set (trending s) \<and> json_get s k = Some (fst x)"
proof -
  from assms obtain e where e: "e \<in> set (zrevrange (trending s) 0 (int limit - 1))"
    and x: "map_option (\<lambda>a. (a, snd e)) (json_get s (fst e)) = Some x"
    by (auto simp add: getTrendingArticles_def List.map_filter_def)
  from e have "e \<in> set (trending s)"
    by (auto simp add: zrevrange_def Let_def split: if_splits dest!: in_set_takeD in_set_dropD)
  with x show ?thesis by (cases e) auto
qed

lemma scores_reader_server: "trendingScores topic_matcher reader_server 1000 = [(''a1'', 1)]"
  by (simp add: trendingScores_def ft_search_def sorted_matches_def timeDecay_def
      getEngagementScore_def hgetall_engagement_def lookup_def reader_server_def redis0_def
      art1_def)

lemma rebuild_snapshots_unfold:
  "rebuild_snapshots M s now =
     s # map (\<lambda>n. s\<lparr>trending := take n (trending (updateTrendingArticles M s now))\<rparr>)
           [0..<Suc (length (trending (updateTrendingArticles M s now)))]"
proof -
  let ?sc = "trendingScores M s now"
  let ?cmds = "rebuild_commands ?sc"
  have len: "length ?cmds = Suc (length (object_entries ?sc))"
    by (simp add: rebuild_commands_def)
  have "[0..<Suc (length ?cmds)] = 0 # map Suc [0..<length ?cmds]"
    by (simp add: upt_conv_Cons map_Suc_upt del: upt_Suc)
  then have "rebuild_snapshots M s now =
     s\<lparr>trending := trending s\<rparr> #
       map (\<lambda>n. s\<lparr>trending := fold exec (take (Suc n) ?cmds) (trending s)\<rparr>) [0..<length ?cmds]"
    by (simp add: rebuild_snapshots_def Let_def comp_def del: upt_Suc)
  also have "map (\<lambda>n. s\<lparr>trending := fold exec (take (Suc n) ?cmds) (trending s)\<rparr>)
                 [0..<length ?cmds]
     = map (\<lambda>n. s\<lparr>trending := take n (object_entries ?sc)\<rparr>) [0..<length ?cmds]"
    using fold_exec_rebuild [OF trendingScores_distinct, of "Suc _" M s now "trending s"]
    by simp
  finally show ?thesis
    by (simp add: len trending_updateTrendingArticles)
qed

text \<open>
  C4, as stated, fails. On the sample server the old ranking and the rebuilt ranking both
  show \<^verbatim>\<open>a1\<close> with score 1; the state after the \<^verbatim>\<open>DEL\<close> of the rebuild is one a reader
  can be served from, and \<^verbatim>\<open>getTrendingArticles\<close> returns nothing there: neither the
  old ranking nor the new one.
\<close>

theorem rebuild_not_atomic_counterexample:
  "reader_server\<lparr>trending := []\<rparr> \<in> set (rebuild_snapshots topic_matcher reader_server 1000) \<and>
   getTrendingArticles (reader_server\<lparr>trending := []\<rparr>) 10 = [] \<and>
   getTrendingArticles reader_server 10 = [(art1, 1)] \<and>
   getTrendingArticles (updateTrendingArticles topic_matcher reader_server 1000) 10
     = [(art1, 1)]"
proof -
  have new: "trending (updateTrendingArticles topic_matcher reader_server 1000) = [(''a1'', 1)]"
    by (simp add: trending_updateTrendingArticles scores_reader_server)
  have old: "getTrendingArticles reader_server 10 = [(art1, 1)]"
    by (simp add: getTrendingArticles_def zrevrange_def json_get_def List.map_filter_def
        reader_server_def redis0_def)
  have same: "updateTrendingArticles topic_matcher reader_server 1000 = reader_server"
    using new by (simp add: updateTrendingArticles_def reader_server_def redis0_def)
  have mid: "getTrendingArticles (reader_server\<lparr>trending := []\<rparr>) 10 = []"
    by (simp add: getTrendingArticles_def zrevrange_def List.map_filter_def)
  have "reader_server\<lparr>trending := []\<rparr>
          \<in> set (rebuild_snapshots topic_matcher reader_server 1000)"
    by (simp add: rebuild_snapshots_unfold new del: upt_Suc)
       (intro disjI2 image_eqI [where x = 0], simp_all)
  with old mid same show ?thesis by simp
qed

text \<open>
  C4, amended: the rebuild is a \<^verbatim>\<open>DEL\<close> followed by one \<^verbatim>\<open>ZADD\<close> per article, each a
  command of its own. While one rebuild runs (and nothing else writes the ranking), the
  server passes through these states, and a reader is served from one of them: the old
  ranking; then the empty ranking; then the first 1, 2, ... entries written of the new
  ranking; at last the whole new ranking. The entries are written in the order of
  \<^verbatim>\<open>Object.entries\<close>, which is the order of the list \<open>trending\<close> after the rebuild. So a reader may see an empty or partly filled ranking,
  but, once the rebuild has begun, never an entry or a score of the old one.
\<close>

theorem rebuild_passes_through_prefixes:
  "rebuild_snapshots M s now =
     s # map (\<lambda>n. s\<lparr>trending := take n (trending (updateTrendingArticles M s now))\<rparr>)
           [0..<Suc (length (trending (updateTrendingArticles M s now)))] \<and>
   last (rebuild_snapshots M s now) = updateTrendingArticles M s now"
proof -
  have "last (rebuild_snapshots M s now)
      = s\<lparr>trending := fold exec (rebuild_commands (trendingScores M s now)) (trending s)\<rparr>"
    by (simp add: rebuild_snapshots_def Let_def last_map del: upt_Suc)
  then show ?thesis
    by (simp add: rebuild_snapshots_unfold updateTrendingArticles_def)
qed

subsection \<open>Trending scores\<close>

lemma ft_search_distinct:
  "distinct (map fst (json_docs s)) \<Longrightarrow> distinct (map fst (ft_search M s q i n))"
proof -
  assume "distinct (map fst (json_docs s))"
  then have "distinct (map fst (sorted_matches M s q))"
    by (auto simp add: sorted_matches_def distinct_map intro: inj_on_subset)
  then have "distinct (drop i (map fst (sorted_matches M s q)))" by simp
  then have "distinct (take n (drop i (map fst (sorted_matches M s q))))" by simp
  then show ?thesis by (simp add: ft_search_def take_map drop_map)
qed

text \<open>What a refresh computes: every document of the scan (the first 1000 of all
  documents, oldest first) gets the score \<open>exp (- (now - publishedAt) / 24 h)\<close> times
  its engagement score.\<close>

lemma trending_score_formula:
  assumes "distinct (map fst (json_docs s))"
    and "(k, a) \<in> set (ft_search M s ''*'' 0 1000)"
  shows "map_of (trending (updateTrendingArticles M s now)) k
           = Some (exp (- real_of_int (now - publishedAt a) / (24 * 60 * 60 * 1000))
                   * getEngagementScore s k now)"
proof -
  let ?score = "\<lambda>d. timeDecay now (publishedAt (snd d)) * getEngagementScore s (fst d) now"
  let ?scan = "ft_search M s ''*'' 0 1000"
  have d: "distinct (map fst ?scan)" by (rule ft_search_distinct) (rule assms(1))
  then have "trendingScores M s now = map (\<lambda>d. (fst d, ?score d)) ?scan"
    using fold_update_fresh [of ?scan "[]" ?score] by (simp add: trendingScores_def)
  moreover have "map_of (map (\<lambda>d. (fst d, ?score d)) ?scan) k = Some (?score (k, a))"
    using d assms(2) by (intro map_of_is_SomeI) (force simp add: comp_def)+
  ultimately have "map_of (trendingScores M s now) k = Some (?score (k, a))"
    by simp
  moreover have "map_of (object_entries (trendingScores M s now))
      = map_of (trendingScores M s now)"
    by (rule map_of_object_entries) (rule trendingScores_distinct)
  ultimately show ?thesis
    by (simp add: trending_updateTrendingArticles timeDecay_def)
qed

text \<open>On a server whose only article was published just now and has no engagement
  record, the article tops the ranking after a refresh, with score 1.\<close>

lemma fresh_article_tops_ranking:
  assumes "json_docs s = [(k, a)]" and "publishedAt a = now"
    and "hgetall_engagement s k now = []"
  shows "getTrendingArticles (updateTrendingArticles M s now) 1 = [(a, 1)]"
proof -
  have "trendingScores M s now = [(k, 1)]"
    using assms
    by (simp add: trendingScores_def ft_search_def sorted_matches_def timeDecay_def
        getEngagementScore_def)
  then have "trending (updateTrendingArticles M s now) = [(k, 1)]"
    by (simp add: trending_updateTrendingArticles)
  then show ?thesis
    using assms(1)
    by (simp add: getTrendingArticles_def zrevrange_def List.map_filter_def json_get_def)
qed

lemma archive_sorted: "sorted_matches M archive_server ''*'' = json_docs archive_server"
  by (rule archive_sorted_matches) simp

lemma archive_scan:
  "ft_search M archive_server ''*'' 0 1000
     = map (\<lambda>n. (archive_key n, old_article n)) [0..<1000]"
  by (simp add: ft_search_def archive_sorted) (simp add: archive_server_def take_map del: upt_Suc)

lemma json_get_archive:
  assumes "n < 1001"
  shows "json_get archive_server (archive_key n) = Some (old_article n)"
proof -
  from assms have "(archive_key n, old_article n) \<in> set (json_docs archive_server)"
    by (simp add: archive_server_def del: upt_Suc)
  moreover have "distinct (map fst (json_docs archive_server))"
    by (simp add: archive_server_def comp_def distinct_map inj_on_def del: upt_Suc)
       (blast dest: archive_key_inj)
  ultimately show ?thesis
    by (simp add: json_get_def)
qed

text \<open>
  C6. The claim: every article gets its score at each refresh, and an article published
  just now, with no engagement record, tops the ranking with score 1. On the archive
  server the article published at instant 1000 is stored and has engagement score 1;
  after a refresh at instant 1000 it has no score in the sorted set and is not among the
  trending articles. The scan of \<^verbatim>\<open>updateTrendingArticles\<close> reads 1000 documents,
  oldest first, and this article is number 1001.
\<close>

theorem newest_article_is_not_ranked:
  "json_get archive_server (archive_key 1000) = Some (old_article 1000) \<and>
   publishedAt (old_article 1000) = 1000 \<and>
   getEngagementScore archive_server (archive_key 1000) 1000 = 1 \<and>
   map_of (trending (updateTrendingArticles topic_matcher archive_server 1000))
     (archive_key 1000) = None \<and>
   old_article 1000
     \<notin> fst ` set (getTrendingArticles
                    (updateTrendingArticles topic_matcher archive_server 1000) 1)"
proof -
  let ?s = "updateTrendingArticles topic_matcher archive_server 1000"
  have doc: "json_get archive_server (archive_key 1000) = Some (old_article 1000)"
    by (simp add: json_get_archive)
  have pub: "publishedAt (old_article 1000) = 1000" by (simp add: old_article_def)
  have eng: "getEngagementScore archive_server (archive_key 1000) 1000 = 1"
    by (simp add: getEngagementScore_def hgetall_engagement_def lookup_def archive_server_def
        redis0_def)
  have keys: "fst ` set (trending ?s) = archive_key ` {0..<1000}"
    by (simp add: trending_keys archive_scan image_image del: upt_Suc)
  have absent: "archive_key 1000 \<notin> fst ` set (trending ?s)"
    unfolding keys by (auto dest: archive_key_inj)
  then have none: "map_of (trending ?s) (archive_key 1000) = None"
    by (simp add: map_of_eq_None_iff)
  have "old_article 1000 \<notin> fst ` set (getTrendingArticles ?s 1)"
  proof
    assume "old_article 1000 \<in> fst ` set (getTrendingArticles ?s 1)"
    then obtain x where "x \<in> set (getTrendingArticles ?s 1)" "fst x = old_article 1000"
      by auto
    then obtain k where k: "(k, snd x) \<in> set (trending ?s)"
        "json_get ?s k = Some (old_article 1000)"
      using getTrendingArticles_members by metis
    from k(1) have "k \<in> fst ` set (trending ?s)" by force
    then obtain n where n: "n < 1000" "k = archive_key n" unfolding keys by auto
    then have "json_get archive_server k = Some (old_article n)"
      by (simp add: json_get_archive)
    moreover from k(2) have "json_get archive_server k = Some (old_article 1000)"
      by simp
    ultimately have "old_article n = old_article 1000" by simp
    then have "publishedAt (old_article n) = publishedAt (old_article 1000)" by simp
    with n(1) show False by (simp add: old_article_def)
  qed
  with doc pub eng none show ?thesis by simp
qed

end
